theory Spec2Isabelle
  imports Complex_Main "HOL-Library.Log_Nat"
begin

section \<open>The world outside the program\<close>

text \<open>
  The persistence layer talks to a MySQL server through pymysql, to the file system
  through pandas and os, and to the clock. None of that is code of the repository, so
  each such call is an event of a trace, and what the call answers is given by an
  environment: a deterministic function of the calls made so far. Logging is not
  modelled. The handler's lock is not modelled: the operations of the handler are run to
  their end one after another. The monitor has no lock; its operations are given both as
  whole operations and, for \<open>check_health\<close>, as the two parts between which another
  thread can run.
\<close>

datatype call =
    TimeTime | DatetimeNow
  | PymysqlConnect | ConnPing | ConnClose
  | CursorExecute | CursorExecutemany | ConnCommit | ConnRollback
  | PathExists | ToCsv | ReadCsv
  | StopIsSet | StopWait

type_synonym trace = "call list"

text \<open>
  Python values. A finite float is given by its value, a rational number; \<open>PyFloatInf\<close>
  is an infinite float, positive when its argument is \<open>True\<close>. The sign of a zero is
  not kept.
\<close>

datatype pyval =
  PyNone | PyBool bool | PyInt int | PyFloat rat | PyFloatInf bool | PyStr string

type_synonym pydict = "(string \<times> pyval) list"

text \<open>A pandas DataFrame: its column names and its rows.\<close>

record dataframe =
  df_columns :: "string list"
  df_rows :: "pyval list list"

text \<open>
  A call on a connection object that raises answers \<open>Some (msg, o)\<close>: the message of the
  exception and whether the connection object still reports \<open>open\<close> afterwards.
  \<open>pymysql.connect\<close> answers \<open>None\<close> when it returns a connection.
  \<open>read_csv\<close> stands for reading the file, converting its timestamps and keeping the
  recent rows; \<open>dataframe_of_rows\<close> for building a frame from fetched rows and
  converting its timestamps; \<open>pandas_stats\<close> for the aggregates of a frame. Each answers
  \<open>Inl\<close> with the message when pandas raises.
\<close>

record env =
  time_time :: "trace \<Rightarrow> real"
  datetime_now :: "trace \<Rightarrow> int"
  pymysql_connect :: "trace \<Rightarrow> string option"
  conn_ping :: "trace \<Rightarrow> (string \<times> bool) option"
  conn_close :: "trace \<Rightarrow> (string \<times> bool) option"
  cursor_execute :: "trace \<Rightarrow> (string \<times> bool) + pydict list"
  cursor_executemany :: "trace \<Rightarrow> (string \<times> bool) option"
  conn_commit :: "trace \<Rightarrow> (string \<times> bool) option"
  conn_rollback :: "trace \<Rightarrow> (string \<times> bool) option"
  path_exists :: "trace \<Rightarrow> bool"
  to_csv :: "trace \<Rightarrow> string option"
  read_csv :: "trace \<Rightarrow> string + dataframe"
  dataframe_of_rows :: "pydict list \<Rightarrow> string + dataframe"
  pandas_stats :: "dataframe \<Rightarrow> string + pydict"
  stop_is_set :: "trace \<Rightarrow> bool"

text \<open>The calls that go over the network to the database server.\<close>

fun is_network :: "call \<Rightarrow> bool" where
  "is_network PymysqlConnect = True"
| "is_network ConnPing = True"
| "is_network ConnClose = True"
| "is_network CursorExecute = True"
| "is_network CursorExecutemany = True"
| "is_network ConnCommit = True"
| "is_network ConnRollback = True"
| "is_network _ = False"

definition network_calls :: "trace \<Rightarrow> trace" where
  "network_calls tr = filter is_network tr"

definition probes :: "trace \<Rightarrow> nat" where
  "probes tr = length (filter (\<lambda>c. c = ConnPing) tr)"

section \<open>mysql\_handler.py: MySQLHandler\<close>

text \<open>
  \<open>DATABASE_CONFIG\<close> comes from the config module, which is not part of the sources
  read here; the handler's configuration is a record holding the keys the code
  subscripts, and \<open>autocommit\<close> is optional as the code reads it with a default.
\<close>

record db_config =
  host :: string
  port :: int
  database :: string
  user :: string
  autocommit :: "bool option"

datatype connection = Connection (conn_open: bool)

record mysql_handler =
  connection :: "connection option"
  last_ping_time :: real
  ping_interval :: real
  config :: db_config

type_synonym hstate = "mysql_handler \<times> trace"

definition new_mysql_handler :: "db_config \<Rightarrow> mysql_handler" where
  "new_mysql_handler cfg =
     \<lparr>connection = None, last_ping_time = 0, ping_interval = 300, config = cfg\<rparr>"

text \<open>\<open>self.connection and self.connection.open\<close>\<close>

definition is_open :: "mysql_handler \<Rightarrow> bool" where
  "is_open h = (case connection h of None \<Rightarrow> False | Some c \<Rightarrow> conn_open c)"

definition get_autocommit :: "mysql_handler \<Rightarrow> bool" where
  "get_autocommit h = (case autocommit (config h) of None \<Rightarrow> True | Some b \<Rightarrow> b)"

definition connect :: "env \<Rightarrow> hstate \<Rightarrow> bool \<times> hstate" where
  "connect e s =
     (case s of (h, tr) \<Rightarrow>
        if is_open h then (True, h, tr)
        else (case pymysql_connect e tr of
                None \<Rightarrow>
                  (True,
                   h\<lparr>connection := Some (Connection True),
                     last_ping_time := time_time e (tr @ [PymysqlConnect])\<rparr>,
                   tr @ [PymysqlConnect, TimeTime])
              | Some msg \<Rightarrow> (False, h\<lparr>connection := None\<rparr>, tr @ [PymysqlConnect])))"

definition disconnect :: "env \<Rightarrow> hstate \<Rightarrow> hstate" where
  "disconnect e s =
     (case s of (h, tr) \<Rightarrow>
        (case connection h of
           None \<Rightarrow> (h, tr)
         | Some c \<Rightarrow>
             (case conn_close e tr of
                None \<Rightarrow> (h\<lparr>connection := None\<rparr>, tr @ [ConnClose])
              | Some (msg, opn) \<Rightarrow>
                  (h\<lparr>connection := Some (Connection opn)\<rparr>, tr @ [ConnClose]))))"

text \<open>The last statements of \<open>_ensure_connection\<close>: the check of the connection state.\<close>

definition check_connection_state :: "env \<Rightarrow> hstate \<Rightarrow> bool \<times> hstate" where
  "check_connection_state e s =
     (case s of (h, tr) \<Rightarrow> if \<not> is_open h then connect e (h, tr) else (True, h, tr))"

definition ensure_connection :: "env \<Rightarrow> hstate \<Rightarrow> bool \<times> hstate" where
  "ensure_connection e s =
     (case s of (h, tr) \<Rightarrow>
        let current_time = time_time e tr; tr1 = tr @ [TimeTime] in
        if current_time - last_ping_time h > ping_interval h then
          (if is_open h then
             (case conn_ping e tr1 of
                None \<Rightarrow>
                  check_connection_state e
                    (h\<lparr>last_ping_time := current_time\<rparr>, tr1 @ [ConnPing])
              | Some (msg, opn) \<Rightarrow>
                  connect e (h\<lparr>connection := Some (Connection opn)\<rparr>, tr1 @ [ConnPing]))
           else check_connection_state e (h, tr1))
        else check_connection_state e (h, tr1))"

text \<open>
  The \<open>except\<close> branch of \<open>execute_insert\<close> and \<open>execute_batch_insert\<close>: when the
  configuration is not autocommit, one rollback is tried and whatever it raises is dropped.
\<close>

definition rollback_after_failure :: "env \<Rightarrow> hstate \<Rightarrow> bool \<times> hstate" where
  "rollback_after_failure e s =
     (case s of (h, tr) \<Rightarrow>
        if get_autocommit h then (False, h, tr)
        else (case connection h of
                None \<Rightarrow> (False, h, tr)
              | Some c \<Rightarrow>
                  (case conn_rollback e tr of
                     None \<Rightarrow> (False, h, tr @ [ConnRollback])
                   | Some (msg, opn) \<Rightarrow>
                       (False, h\<lparr>connection := Some (Connection opn)\<rparr>, tr @ [ConnRollback]))))"

definition commit_after_success :: "env \<Rightarrow> hstate \<Rightarrow> bool \<times> hstate" where
  "commit_after_success e s =
     (case s of (h, tr) \<Rightarrow>
        if get_autocommit h then (True, h, tr)
        else (case conn_commit e tr of
                None \<Rightarrow> (True, h, tr @ [ConnCommit])
              | Some (msg, opn) \<Rightarrow>
                  rollback_after_failure e
                    (h\<lparr>connection := Some (Connection opn)\<rparr>, tr @ [ConnCommit])))"

text \<open>
  \<open>execute_query\<close> answers \<open>None\<close> or the rows fetched. Using the cursor of a
  connection that is \<open>None\<close> raises AttributeError inside the \<open>try\<close>, with no call made.
\<close>

definition execute_query :: "env \<Rightarrow> hstate \<Rightarrow> pydict list option \<times> hstate" where
  "execute_query e s =
     (case ensure_connection e s of
        (False, s1) \<Rightarrow> (None, s1)
      | (True, h1, tr1) \<Rightarrow>
          (case connection h1 of
             None \<Rightarrow> (None, h1, tr1)
           | Some c \<Rightarrow>
               (case cursor_execute e tr1 of
                  Inr rows \<Rightarrow> (Some rows, h1, tr1 @ [CursorExecute])
                | Inl (msg, opn) \<Rightarrow>
                    (None, h1\<lparr>connection := Some (Connection opn)\<rparr>,
                     tr1 @ [CursorExecute]))))"

definition execute_insert :: "env \<Rightarrow> hstate \<Rightarrow> bool \<times> hstate" where
  "execute_insert e s =
     (case ensure_connection e s of
        (False, s1) \<Rightarrow> (False, s1)
      | (True, h1, tr1) \<Rightarrow>
          (case connection h1 of
             None \<Rightarrow> (False, h1, tr1)
           | Some c \<Rightarrow>
               (case cursor_execute e tr1 of
                  Inr rows \<Rightarrow> commit_after_success e (h1, tr1 @ [CursorExecute])
                | Inl (msg, opn) \<Rightarrow>
                    rollback_after_failure e
                      (h1\<lparr>connection := Some (Connection opn)\<rparr>, tr1 @ [CursorExecute]))))"

definition execute_batch_insert :: "env \<Rightarrow> pyval list list \<Rightarrow> hstate \<Rightarrow> bool \<times> hstate" where
  "execute_batch_insert e params_list s =
     (case ensure_connection e s of
        (False, s1) \<Rightarrow> (False, s1)
      | (True, h1, tr1) \<Rightarrow>
          if params_list = [] then (True, h1, tr1)
          else (case connection h1 of
                  None \<Rightarrow> (False, h1, tr1)
                | Some c \<Rightarrow>
                    (case cursor_executemany e tr1 of
                       None \<Rightarrow> commit_after_success e (h1, tr1 @ [CursorExecutemany])
                     | Some (msg, opn) \<Rightarrow>
                         rollback_after_failure e
                           (h1\<lparr>connection := Some (Connection opn)\<rparr>,
                            tr1 @ [CursorExecutemany]))))"

text \<open>
  \<open>save_option_trade\<close> builds the parameter tuple with \<open>dict.get\<close>, which cannot raise;
  the default of \<open>trade_time\<close> reads the clock whether it is used or not.
\<close>

definition save_option_trade :: "env \<Rightarrow> pydict \<Rightarrow> hstate \<Rightarrow> bool \<times> hstate" where
  "save_option_trade e trade_data s =
     (case s of (h, tr) \<Rightarrow> execute_insert e (h, tr @ [DatetimeNow]))"

definition get_recent_trades :: "env \<Rightarrow> hstate \<Rightarrow> pydict list \<times> hstate" where
  "get_recent_trades e s =
     (case s of (h, tr) \<Rightarrow>
        (case execute_query e (h, tr @ [DatetimeNow]) of
           (None, s1) \<Rightarrow> ([], s1)
         | (Some rows, s1) \<Rightarrow> (rows, s1)))"

definition health_check :: "env \<Rightarrow> hstate \<Rightarrow> bool \<times> hstate" where
  "health_check e s =
     (case execute_query e s of
        (None, s1) \<Rightarrow> (False, s1)
      | (Some rows, s1) \<Rightarrow> (length rows > 0, s1))"

record connection_info =
  ci_host :: string
  ci_port :: int
  ci_database :: string
  ci_user :: string
  ci_connected :: bool
  ci_last_ping :: "real option"

definition get_connection_info :: "mysql_handler \<Rightarrow> connection_info" where
  "get_connection_info h =
     \<lparr>ci_host = host (config h), ci_port = port (config h),
      ci_database = database (config h), ci_user = user (config h),
      ci_connected = is_open h,
      ci_last_ping = (if last_ping_time h > 0 then Some (last_ping_time h) else None)\<rparr>"

section \<open>Python's float arithmetic\<close>

text \<open>
  A Python float is an IEEE 754 double: a multiple \<open>m * 2 ^ e\<close> with \<open>\<bar>m\<bar> < 2 ^ 53\<close> and
  \<open>- 1074 \<le> e \<le> 971\<close>. Every operation returns the double nearest to the exact
  result, a tie going to the even multiple.
\<close>

text \<open>The integer nearest to \<open>p / q\<close>, for \<open>q > 0\<close>, a tie going to the even one.\<close>

definition round_half_even :: "int \<Rightarrow> int \<Rightarrow> int" where
  "round_half_even p q =
     (let m = p div q; r = p mod q
      in if 2 * r < q then m else if 2 * r > q then m + 1 else if even m then m else m + 1)"

text \<open>The integer part of the binary logarithm of \<open>p / q\<close>, for \<open>p > 0\<close> and \<open>q > 0\<close>.\<close>

definition floor_log2 :: "int \<Rightarrow> int \<Rightarrow> int" where
  "floor_log2 p q =
     (let d = bitlen p - bitlen q
      in if q * 2 ^ nat d \<le> p * 2 ^ nat (- d) then d else d - 1)"

text \<open>
  The double nearest to a rational number that is in range: 53 bits are kept, fewer below
  \<open>2 ^ - 1022\<close>, where the doubles are the multiples of \<open>2 ^ - 1074\<close>.
\<close>

definition round_double :: "rat \<Rightarrow> rat" where
  "round_double x =
     (if x = 0 then 0
      else (case quotient_of \<bar>x\<bar> of
              (p, q) \<Rightarrow>
                let e = max (floor_log2 p q - 52) (- 1074);
                    m = round_half_even (p * 2 ^ nat (- e)) (q * 2 ^ nat e)
                in sgn x * Fract (m * 2 ^ nat e) (2 ^ nat (- e))))"

text \<open>
  The largest double is \<open>2 ^ 1024 - 2 ^ 971\<close>; a number at least half a step above it
  has no nearest double.
\<close>

definition double_overflow :: "rat \<Rightarrow> bool" where
  "double_overflow x = (\<bar>x\<bar> \<ge> of_int (2 ^ 1024 - 2 ^ 970))"

text \<open>
  \<open>a / b\<close> on two Python integers: the double nearest to the exact quotient, and an
  exception when the divisor is zero or the quotient is out of range.
\<close>

definition int_truediv :: "int \<Rightarrow> int \<Rightarrow> string + rat" where
  "int_truediv a b =
     (if b = 0 then Inl ''ZeroDivisionError''
      else if double_overflow (Fract a b) then Inl ''OverflowError''
      else Inr (round_double (Fract a b)))"

text \<open>
  \<open>x * n\<close> on a finite float and a Python integer that is itself a double, as 100 is:
  the double nearest to the exact product, or an infinity; no exception.
\<close>

definition float_mul :: "rat \<Rightarrow> int \<Rightarrow> pyval" where
  "float_mul x n =
     (if double_overflow (x * of_int n) then PyFloatInf (x * of_int n > 0)
      else PyFloat (round_double (x * of_int n)))"

section \<open>db\_health\_checker.py: DatabaseHealthChecker\<close>

text \<open>
  \<open>DATA_CONFIG\<close> is a dictionary of the config module as well; it is a record of the
  three keys read by the code. Timestamps made by \<open>datetime.now()\<close> are integers
  (microseconds). The field \<open>health_check_thread\<close> is \<open>None\<close> while no thread object
  exists and otherwise tells whether the thread is alive; starting and stopping the
  thread are not modelled.
\<close>

record data_config =
  cfg_save_to_csv :: bool
  cfg_save_to_db :: bool
  cfg_csv_path :: string

record health_checker =
  hc_mysql_handler :: "mysql_handler option"
  last_check_time :: "int option"
  check_interval :: int
  is_healthy :: bool
  health_check_thread :: "bool option"
  check_count :: int
  success_count :: int
  failure_count :: int
  last_failure_time :: "int option"
  last_failure_reason :: "string option"

type_synonym cstate = "health_checker \<times> trace"

text \<open>
  The constructor. \<open>MySQLHandler()\<close> reads the process environment and may raise (a port
  that is not a number); what it does is the argument \<open>made\<close>: \<open>Inl\<close> the exception,
  \<open>Inr\<close> the configuration of the new handler.
\<close>

definition initialize_mysql_handler :: "string + db_config \<Rightarrow> mysql_handler option" where
  "initialize_mysql_handler made =
     (case made of Inl msg \<Rightarrow> None | Inr cfg \<Rightarrow> Some (new_mysql_handler cfg))"

definition new_health_checker :: "data_config \<Rightarrow> string + db_config \<Rightarrow> health_checker" where
  "new_health_checker dc made =
     \<lparr>hc_mysql_handler = (if cfg_save_to_db dc then initialize_mysql_handler made else None),
      last_check_time = None, check_interval = 60, is_healthy = False,
      health_check_thread = None,
      check_count = 0, success_count = 0, failure_count = 0,
      last_failure_time = None, last_failure_reason = None\<rparr>"

text \<open>
  \<open>check_health\<close>. \<open>MySQLHandler.health_check\<close> catches every exception itself, so the
  \<open>except\<close> branch of \<open>check_health\<close> (the one that stores \<open>str(e)\<close>) is never taken
  and has no counterpart here.
\<close>

definition check_health :: "env \<Rightarrow> cstate \<Rightarrow> bool \<times> cstate" where
  "check_health e s =
     (case s of (m, tr) \<Rightarrow>
        (case hc_mysql_handler m of
           None \<Rightarrow> (False, m, tr)
         | Some h \<Rightarrow>
             let m1 = m\<lparr>check_count := check_count m + 1,
                        last_check_time := Some (datetime_now e tr)\<rparr>
             in (case health_check e (h, tr @ [DatetimeNow]) of
                   (True, h2, tr2) \<Rightarrow>
                     (True,
                      m1\<lparr>hc_mysql_handler := Some h2,
                         success_count := success_count m1 + 1,
                         is_healthy := True\<rparr>,
                      tr2)
                 | (False, h2, tr2) \<Rightarrow>
                     (False,
                      m1\<lparr>hc_mysql_handler := Some h2,
                         failure_count := failure_count m1 + 1,
                         is_healthy := False,
                         last_failure_time := Some (datetime_now e tr2),
                         last_failure_reason := Some ''Health check query failed''\<rparr>,
                      tr2 @ [DatetimeNow]))))"

text \<open>
  The two parts of \<open>check_health\<close> between which the probe blocks and another thread
  can read or write the monitor: the first part is the test of the handler and the two
  assignments before the \<open>try\<close>, the second is the \<open>try\<close> statement, which reads the
  handler and the counters anew. Were the handler \<open>None\<close> by then, calling its method
  would raise AttributeError, which the \<open>except\<close> branch records as a failure.
\<close>

definition check_health_begin :: "env \<Rightarrow> cstate \<Rightarrow> cstate" where
  "check_health_begin e s =
     (case s of (m, tr) \<Rightarrow>
        (case hc_mysql_handler m of
           None \<Rightarrow> (m, tr)
         | Some h \<Rightarrow>
             (m\<lparr>check_count := check_count m + 1,
                last_check_time := Some (datetime_now e tr)\<rparr>,
              tr @ [DatetimeNow])))"

definition none_type_message :: string where
  "none_type_message =
     [CHR 0x27] @ ''NoneType'' @ [CHR 0x27] @ '' object has no attribute '' @
     [CHR 0x27] @ ''health_check'' @ [CHR 0x27]"

definition check_health_finish :: "env \<Rightarrow> cstate \<Rightarrow> bool \<times> cstate" where
  "check_health_finish e s =
     (case s of (m, tr) \<Rightarrow>
        (case hc_mysql_handler m of
           None \<Rightarrow>
             (False,
              m\<lparr>failure_count := failure_count m + 1,
                is_healthy := False,
                last_failure_time := Some (datetime_now e tr),
                last_failure_reason := Some none_type_message\<rparr>,
              tr @ [DatetimeNow])
         | Some h \<Rightarrow>
             (case health_check e (h, tr) of
                (True, h2, tr2) \<Rightarrow>
                  (True,
                   m\<lparr>hc_mysql_handler := Some h2,
                     success_count := success_count m + 1,
                     is_healthy := True\<rparr>,
                   tr2)
              | (False, h2, tr2) \<Rightarrow>
                  (False,
                   m\<lparr>hc_mysql_handler := Some h2,
                     failure_count := failure_count m + 1,
                     is_healthy := False,
                     last_failure_time := Some (datetime_now e tr2),
                     last_failure_reason := Some ''Health check query failed''\<rparr>,
                   tr2 @ [DatetimeNow]))))"

text \<open>One round of the \<open>while\<close> loop of \<open>_monitoring_loop\<close>, after its test.\<close>

definition monitoring_iteration :: "env \<Rightarrow> cstate \<Rightarrow> cstate" where
  "monitoring_iteration e s =
     (case check_health e s of
        (r, m1, tr1) \<Rightarrow>
          (case hc_mysql_handler m1 of
             None \<Rightarrow> (m1, tr1 @ [StopWait])
           | Some h \<Rightarrow>
               if \<not> is_healthy m1 then
                 (case connect e (h, tr1) of
                    (ok, h2, tr2) \<Rightarrow> (m1\<lparr>hc_mysql_handler := Some h2\<rparr>, tr2 @ [StopWait]))
               else (m1, tr1 @ [StopWait])))"

text \<open>
  The loop runs until another thread sets the stop event, which may never happen: the
  first argument bounds the number of tests of the event, and \<open>None\<close> says that the loop
  was still running when the bound was reached.
\<close>

fun monitoring_loop :: "nat \<Rightarrow> env \<Rightarrow> cstate \<Rightarrow> cstate option" where
  "monitoring_loop 0 e s = None"
| "monitoring_loop (Suc n) e s =
     (case s of (m, tr) \<Rightarrow>
        if stop_is_set e tr then Some (m, tr @ [StopIsSet])
        else monitoring_loop n e (monitoring_iteration e (m, tr @ [StopIsSet])))"

record health_status =
  hs_is_healthy :: bool
  hs_last_check_time :: "int option"
  hs_check_count :: int
  hs_success_count :: int
  hs_failure_count :: int
  success_rate :: pyval
  hs_last_failure_time :: "int option"
  hs_last_failure_reason :: "string option"
  monitoring_active :: "bool option"
  hs_connection :: "connection_info option"

text \<open>
  The expression \<open>(success_count / check_count * 100) if check_count > 0 else 0\<close>: a
  true division of two integers, then a float multiplication by 100; the other branch
  is the integer 0. \<open>Inl\<close> is the exception the division raises.
\<close>

definition success_rate_value :: "int \<Rightarrow> int \<Rightarrow> string + pyval" where
  "success_rate_value s c =
     (if c > 0
      then (case int_truediv s c of
              Inl err \<Rightarrow> Inl err
            | Inr q \<Rightarrow> Inr (float_mul q 100))
      else Inr (PyInt 0))"

text \<open>
  \<open>get_health_status\<close>: \<open>Inr\<close> the dictionary returned, \<open>Inl\<close> the exception that
  leaves the function when the rate cannot be computed.
\<close>

definition get_health_status :: "health_checker \<Rightarrow> string + health_status" where
  "get_health_status m =
     (case success_rate_value (success_count m) (check_count m) of
        Inl err \<Rightarrow> Inl err
      | Inr rate \<Rightarrow>
          Inr \<lparr>hs_is_healthy = is_healthy m,
               hs_last_check_time = last_check_time m,
               hs_check_count = check_count m,
               hs_success_count = success_count m,
               hs_failure_count = failure_count m,
               success_rate = rate,
               hs_last_failure_time = last_failure_time m,
               hs_last_failure_reason = last_failure_reason m,
               monitoring_active = health_check_thread m,
               hs_connection = map_option get_connection_info (hc_mysql_handler m)\<rparr>)"

definition force_reconnect :: "env \<Rightarrow> cstate \<Rightarrow> bool \<times> cstate" where
  "force_reconnect e s =
     (case s of (m, tr) \<Rightarrow>
        (case hc_mysql_handler m of
           None \<Rightarrow> (False, m, tr)
         | Some h \<Rightarrow>
             (case connect e (disconnect e (h, tr)) of
                (True, h2, tr2) \<Rightarrow>
                  (True, snd (check_health e (m\<lparr>hc_mysql_handler := Some h2\<rparr>, tr2)))
              | (False, h2, tr2) \<Rightarrow> (False, m\<lparr>hc_mysql_handler := Some h2\<rparr>, tr2))))"

definition reset_statistics :: "health_checker \<Rightarrow> health_checker" where
  "reset_statistics m =
     m\<lparr>check_count := 0, success_count := 0, failure_count := 0,
       last_failure_time := None, last_failure_reason := None\<rparr>"

text \<open>
  The operations a caller and the monitoring thread apply to a monitor, when each runs to
  its end before the next one starts: \<open>run\<close> has no state in which an operation is
  under way.
\<close>

datatype operation = CheckHealth | ForceReconnect | ResetStatistics | MonitoringIteration

fun apply_operation :: "env \<Rightarrow> operation \<Rightarrow> cstate \<Rightarrow> cstate" where
  "apply_operation e CheckHealth s = snd (check_health e s)"
| "apply_operation e ForceReconnect s = snd (force_reconnect e s)"
| "apply_operation e ResetStatistics s = (reset_statistics (fst s), snd s)"
| "apply_operation e MonitoringIteration s = monitoring_iteration e (fst s, snd s @ [StopIsSet])"

fun run :: "env \<Rightarrow> operation list \<Rightarrow> cstate \<Rightarrow> cstate" where
  "run e [] s = s"
| "run e (x # xs) s = run e xs (apply_operation e x s)"

text \<open>\<open>check_health\<close> called \<open>n\<close> times in a row: what each call returned, and the state left.\<close>

fun check_health_times :: "nat \<Rightarrow> env \<Rightarrow> cstate \<Rightarrow> bool list \<times> cstate" where
  "check_health_times 0 e s = ([], s)"
| "check_health_times (Suc n) e s =
     (case check_health e s of
        (r, s1) \<Rightarrow> (case check_health_times n e s1 of (rs, s2) \<Rightarrow> (r # rs, s2)))"

section \<open>data\_handler.py: DataHandler\<close>

record data_handler =
  dh_mysql_handler :: "mysql_handler option"

type_synonym dstate = "data_handler \<times> trace"

text \<open>
  \<open>_save_to_csv\<close> has no \<open>return\<close> statement: whether the write raises or not, the
  caller gets \<open>None\<close>. The sink took the record when \<open>to_csv\<close> did not raise.
\<close>

definition save_to_csv :: "env \<Rightarrow> pydict \<Rightarrow> trace \<Rightarrow> pyval \<times> trace" where
  "save_to_csv e trade_info tr = (PyNone, tr @ [PathExists, ToCsv])"

definition csv_accepted :: "env \<Rightarrow> trace \<Rightarrow> bool" where
  "csv_accepted e tr = (to_csv e (tr @ [PathExists]) = None)"

definition save_to_database :: "env \<Rightarrow> pydict \<Rightarrow> dstate \<Rightarrow> pyval \<times> dstate" where
  "save_to_database e trade_info s =
     (case s of (d, tr) \<Rightarrow>
        (case dh_mysql_handler d of
           None \<Rightarrow> (PyBool False, d, tr)
         | Some h \<Rightarrow>
             (case save_option_trade e trade_info (h, tr) of
                (success, h2, tr2) \<Rightarrow>
                  (PyBool success, d\<lparr>dh_mysql_handler := Some h2\<rparr>, tr2))))"

definition save_trade :: "env \<Rightarrow> data_config \<Rightarrow> pydict \<Rightarrow> dstate \<Rightarrow> pyval \<times> dstate" where
  "save_trade e dc trade_info s =
     (case s of (d, tr) \<Rightarrow>
        let tr1 = (if cfg_save_to_csv dc then snd (save_to_csv e trade_info tr) else tr);
            s2 = (if cfg_save_to_db dc then snd (save_to_database e trade_info (d, tr1))
                  else (d, tr1))
        in (PyNone, s2))"

definition empty_dataframe :: dataframe where
  "empty_dataframe = \<lparr>df_columns = [], df_rows = []\<rparr>"

text \<open>\<open>df.empty\<close>: one of the two axes has length 0.\<close>

definition df_empty :: "dataframe \<Rightarrow> bool" where
  "df_empty df = (df_columns df = [] \<or> df_rows df = [])"

text \<open>The second half of \<open>load_historical_data\<close>: the CSV file.\<close>

definition load_from_csv :: "env \<Rightarrow> data_config \<Rightarrow> dstate \<Rightarrow> dataframe \<times> dstate" where
  "load_from_csv e dc s =
     (case s of (d, tr) \<Rightarrow>
        if \<not> cfg_save_to_csv dc then (empty_dataframe, d, tr)
        else if \<not> path_exists e tr then (empty_dataframe, d, tr @ [PathExists])
        else (case read_csv e (tr @ [PathExists]) of
                Inl msg \<Rightarrow> (empty_dataframe, d, tr @ [PathExists, ReadCsv])
              | Inr df \<Rightarrow> (df, d, tr @ [PathExists, ReadCsv])))"

definition load_historical_data :: "env \<Rightarrow> data_config \<Rightarrow> dstate \<Rightarrow> dataframe \<times> dstate" where
  "load_historical_data e dc s =
     (case s of (d, tr) \<Rightarrow>
        (case dh_mysql_handler d of
           None \<Rightarrow> load_from_csv e dc (d, tr)
         | Some h \<Rightarrow>
             if cfg_save_to_db dc then
               (case get_recent_trades e (h, tr) of
                  (trades_data, h2, tr2) \<Rightarrow>
                    let d2 = d\<lparr>dh_mysql_handler := Some h2\<rparr> in
                    if trades_data \<noteq> [] then
                      (case dataframe_of_rows e trades_data of
                         Inr df \<Rightarrow> (df, d2, tr2)
                       | Inl msg \<Rightarrow> load_from_csv e dc (d2, tr2))
                    else load_from_csv e dc (d2, tr2))
             else load_from_csv e dc (d, tr)))"

text \<open>
  The body of the \<open>try\<close> of \<open>get_statistics\<close>: \<open>Inl\<close> is an exception raised inside it,
  which the \<open>except\<close> clause of \<open>get_statistics\<close> turns into a dictionary of its own.
\<close>

definition get_statistics_try :: "env \<Rightarrow> data_config \<Rightarrow> dstate \<Rightarrow> (string + pydict) \<times> dstate" where
  "get_statistics_try e dc s =
     (case load_historical_data e dc s of
        (df, s1) \<Rightarrow>
          if df_empty df then (Inr [(''total_trades'', PyInt 0)], s1)
          else (case pandas_stats e df of
                  Inl msg \<Rightarrow> (Inl msg, s1)
                | Inr rest \<Rightarrow>
                    (Inr ((''total_trades'', PyInt (int (length (df_rows df)))) # rest), s1)))"

text \<open>
  What a call of \<open>get_statistics\<close> gives its caller: \<open>Inr\<close> the dictionary returned,
  \<open>Inl\<close> an exception that leaves the function.
\<close>

definition get_statistics :: "env \<Rightarrow> data_config \<Rightarrow> dstate \<Rightarrow> (string + pydict) \<times> dstate" where
  "get_statistics e dc s =
     (case get_statistics_try e dc s of
        (Inl msg, s1) \<Rightarrow> (Inr [(''error'', PyStr msg)], s1)
      | (Inr stats, s1) \<Rightarrow> (Inr stats, s1))"

section \<open>Properties stated as definitions\<close>

text \<open>The three counters of a monitor agree: every check counted is a success or a failure.\<close>

definition counts_consistent :: "health_checker \<Rightarrow> bool" where
  "counts_consistent m = (check_count m = success_count m + failure_count m)"

text \<open>The calls that execute a statement or end a transaction.\<close>

definition statement_calls :: "trace \<Rightarrow> trace" where
  "statement_calls tr =
     filter (\<lambda>c. c = CursorExecute \<or> c = CursorExecutemany \<or> c = ConnCommit \<or> c = ConnRollback) tr"

definition close_calls :: "trace \<Rightarrow> trace" where
  "close_calls tr = filter (\<lambda>c. c = ConnClose) tr"

text \<open>How many of the calls of a run returned \<open>True\<close>, and how many \<open>False\<close>.\<close>

definition successes :: "bool list \<Rightarrow> int" where
  "successes rs = int (length (filter (\<lambda>r. r) rs))"

definition failures :: "bool list \<Rightarrow> int" where
  "failures rs = int (length (filter (\<lambda>r. \<not> r) rs))"

text \<open>Ten outcomes that alternate, starting with either one.\<close>

definition alternating10 :: "bool list \<Rightarrow> bool" where
  "alternating10 rs =
     (rs = [True, False, True, False, True, False, True, False, True, False] \<or>
      rs = [False, True, False, True, False, True, False, True, False, True])"

section \<open>Concrete environments and objects\<close>

text \<open>
  A server that accepts every connection and answers every statement; the clock starts at
  1000 seconds and advances by one second per call; the stop event is set from its second
  test on.
\<close>

definition reachable_server :: env where
  "reachable_server =
     \<lparr>time_time = (\<lambda>tr. 1000 + real (length tr)),
      datetime_now = (\<lambda>tr. int (length tr)),
      pymysql_connect = (\<lambda>tr. None),
      conn_ping = (\<lambda>tr. None),
      conn_close = (\<lambda>tr. None),
      cursor_execute = (\<lambda>tr. Inr [[(''health_check'', PyInt 1)]]),
      cursor_executemany = (\<lambda>tr. None),
      conn_commit = (\<lambda>tr. None),
      conn_rollback = (\<lambda>tr. None),
      path_exists = (\<lambda>tr. True),
      to_csv = (\<lambda>tr. None),
      read_csv = (\<lambda>tr. Inr \<lparr>df_columns = [], df_rows = []\<rparr>),
      dataframe_of_rows = (\<lambda>rows. Inr \<lparr>df_columns = [], df_rows = []\<rparr>),
      pandas_stats = (\<lambda>df. Inr []),
      stop_is_set = (\<lambda>tr. StopIsSet \<in> set tr)\<rparr>"

text \<open>A server that refuses every connection.\<close>

definition unreachable_server :: env where
  "unreachable_server =
     reachable_server\<lparr>pymysql_connect := (\<lambda>tr. Some ''Connection refused'')\<rparr>"

text \<open>A server that drops the connection at every second statement.\<close>

definition flaky_server :: env where
  "flaky_server =
     reachable_server
       \<lparr>cursor_execute :=
          (\<lambda>tr. if even (length (filter (\<lambda>c. c = CursorExecute) tr))
                then Inr [[(''health_check'', PyInt 1)]]
                else Inl (''Lost connection'', False))\<rparr>"

text \<open>A server whose ping raises while the connection object stays open.\<close>

definition out_of_sync_server :: env where
  "out_of_sync_server =
     reachable_server\<lparr>conn_ping := (\<lambda>tr. Some (''Command Out of Sync'', True))\<rparr>"

definition local_config :: db_config where
  "local_config =
     \<lparr>host = ''localhost'', port = 3306, database = ''options'', user = ''monitor'',
      autocommit = None\<rparr>"

definition both_sinks :: data_config where
  "both_sinks =
     \<lparr>cfg_save_to_csv = True, cfg_save_to_db = True, cfg_csv_path = ''data/trades.csv''\<rparr>"

definition csv_only :: data_config where
  "csv_only =
     \<lparr>cfg_save_to_csv = True, cfg_save_to_db = False, cfg_csv_path = ''data/trades.csv''\<rparr>"

definition fresh_handler :: mysql_handler where
  "fresh_handler = new_mysql_handler local_config"

definition connected_handler :: mysql_handler where
  "connected_handler =
     fresh_handler\<lparr>connection := Some (Connection True), last_ping_time := 900\<rparr>"

text \<open>An open connection whose last verified-alive time is long past.\<close>

definition stale_handler :: mysql_handler where
  "stale_handler = fresh_handler\<lparr>connection := Some (Connection True)\<rparr>"

text \<open>A handle that connected at second 500 and whose connection has been lost since.\<close>

definition dropped_handler :: mysql_handler where
  "dropped_handler =
     fresh_handler\<lparr>connection := Some (Connection False), last_ping_time := 500\<rparr>"

definition fresh_data_handler :: data_handler where
  "fresh_data_handler = \<lparr>dh_mysql_handler = Some fresh_handler\<rparr>"

definition file_only_data_handler :: data_handler where
  "file_only_data_handler = \<lparr>dh_mysql_handler = None\<rparr>"

definition fresh_monitor :: health_checker where
  "fresh_monitor = new_health_checker both_sinks (Inr local_config)"

definition one_trade :: pydict where
  "one_trade =
     [(''option_code'', PyStr ''HK.TCH250930C600000''), (''volume'', PyInt 100),
      (''turnover'', PyInt 5000)]"

section \<open>The connection handle\<close>

lemma connect_when_open: "is_open h \<Longrightarrow> connect e (h, tr) = (True, h, tr)"
  by (simp add: connect_def)

lemma connect_True_is_open: "fst (connect e (h, tr)) \<Longrightarrow> is_open (fst (snd (connect e (h, tr))))"
  by (auto simp: connect_def is_open_def split: if_splits option.splits)

text \<open>
  C7. \<open>connect\<close> is idempotent. On a handle that holds an open connection it returns
  \<open>True\<close> and leaves the handle and the trace as they were: no call is made and the
  time of the last ping is kept. Whenever it returned \<open>True\<close>, calling it again changes
  nothing. When the handle is not open and \<open>pymysql.connect\<close> raises, it returns
  \<open>False\<close>, the connection is \<open>None\<close>, and the time of the last ping is kept.
\<close>

theorem connect_idempotent:
  "(is_open h \<longrightarrow> connect e (h, tr) = (True, h, tr)) \<and>
   (fst (connect e (h, tr)) \<longrightarrow>
      connect e (snd (connect e (h, tr))) = (True, snd (connect e (h, tr)))) \<and>
   (\<not> is_open h \<and> pymysql_connect e tr \<noteq> None \<longrightarrow>
      \<not> fst (connect e (h, tr)) \<and>
      connection (fst (snd (connect e (h, tr)))) = None \<and>
      \<not> is_open (fst (snd (connect e (h, tr)))) \<and>
      last_ping_time (fst (snd (connect e (h, tr)))) = last_ping_time h)"
proof -
  have again: "connect e (snd (connect e (h, tr))) = (True, snd (connect e (h, tr)))"
    if "fst (connect e (h, tr))"
    using connect_True_is_open [OF that] connect_when_open
    by (metis prod.collapse)
  have failed: "\<not> fst (connect e (h, tr)) \<and>
      connection (fst (snd (connect e (h, tr)))) = None \<and>
      \<not> is_open (fst (snd (connect e (h, tr)))) \<and>
      last_ping_time (fst (snd (connect e (h, tr)))) = last_ping_time h"
    if "\<not> is_open h" and "pymysql_connect e tr \<noteq> None"
    using that by (auto simp: connect_def is_open_def)
  show ?thesis
    using again failed by (simp add: connect_when_open)
qed

theorem connect_idempotent_witness:
  "is_open connected_handler \<and>
   connect reachable_server (connected_handler, [TimeTime]) = (True, connected_handler, [TimeTime]) \<and>
   \<not> is_open fresh_handler \<and> pymysql_connect unreachable_server [] \<noteq> None \<and>
   \<not> fst (connect unreachable_server (fresh_handler, [])) \<and>
   connection (fst (snd (connect unreachable_server (fresh_handler, [])))) = None"
proof -
  have a: "is_open connected_handler" by code_simp
  have b: "\<not> is_open fresh_handler" by code_simp
  have c: "pymysql_connect unreachable_server [] \<noteq> None" by code_simp
  show ?thesis
    using a b c
      connect_idempotent [of connected_handler reachable_server "[TimeTime]"]
      connect_idempotent [of fresh_handler unreachable_server "[]"]
    by blast
qed

section \<open>The health monitor\<close>

lemma check_health_none:
  "hc_mysql_handler m = None \<Longrightarrow> check_health e (m, tr) = (False, m, tr)"
  by (simp add: check_health_def)

lemma check_health_some:
  assumes "hc_mysql_handler m = Some h"
  shows "check_health e (m, tr) =
     (let r = health_check e (h, tr @ [DatetimeNow]);
          m1 = m\<lparr>check_count := check_count m + 1,
                 last_check_time := Some (datetime_now e tr)\<rparr>
      in if fst r
         then (True,
               m1\<lparr>hc_mysql_handler := Some (fst (snd r)),
                  success_count := success_count m + 1, is_healthy := True\<rparr>,
               snd (snd r))
         else (False,
               m1\<lparr>hc_mysql_handler := Some (fst (snd r)),
                  failure_count := failure_count m + 1, is_healthy := False,
                  last_failure_time := Some (datetime_now e (snd (snd r))),
                  last_failure_reason := Some ''Health check query failed''\<rparr>,
               snd (snd r) @ [DatetimeNow]))"
  using assms by (simp add: check_health_def Let_def split: prod.splits bool.splits)

text \<open>
  C10. \<open>check_health\<close> on a monitor without a handler returns \<open>False\<close> and leaves the
  monitor, with all its counters, flags and timestamps, and the trace as they were. A
  monitor is built without a handler when persistence to the database is disabled, and
  when the constructor of the handler raises.
\<close>

theorem check_health_uninitialized:
  "(hc_mysql_handler m = None \<longrightarrow> check_health e (m, tr) = (False, m, tr)) \<and>
   (\<not> cfg_save_to_db dc \<longrightarrow> hc_mysql_handler (new_health_checker dc made) = None) \<and>
   hc_mysql_handler (new_health_checker dc (Inl msg)) = None"
  by (simp add: check_health_none new_health_checker_def initialize_mysql_handler_def)

theorem check_health_uninitialized_witness:
  "\<not> cfg_save_to_db csv_only \<and>
   hc_mysql_handler (new_health_checker csv_only (Inr local_config)) = None \<and>
   check_health reachable_server (new_health_checker csv_only (Inr local_config), [TimeTime]) =
     (False, new_health_checker csv_only (Inr local_config), [TimeTime])"
proof -
  have a: "\<not> cfg_save_to_db csv_only" by code_simp
  show ?thesis
    using a
      check_health_uninitialized
        [of "new_health_checker csv_only (Inr local_config)" reachable_server "[TimeTime]"
            csv_only "Inr local_config"]
    by blast
qed

lemma check_health_consistent:
  "counts_consistent m \<Longrightarrow> counts_consistent (fst (snd (check_health e (m, tr))))"
  by (cases "hc_mysql_handler m")
     (auto simp: check_health_none check_health_some counts_consistent_def Let_def)

lemma force_reconnect_consistent:
  assumes "counts_consistent m"
  shows "counts_consistent (fst (snd (force_reconnect e (m, tr))))"
proof -
  have upd: "counts_consistent (m\<lparr>hc_mysql_handler := x\<rparr>)" for x
    using assms by (simp add: counts_consistent_def)
  show ?thesis
    by (auto simp: force_reconnect_def assms upd check_health_consistent
             split: option.splits prod.splits bool.splits)
qed

lemma monitoring_iteration_consistent:
  assumes "counts_consistent m"
  shows "counts_consistent (fst (monitoring_iteration e (m, tr)))"
proof -
  have "counts_consistent (fst (snd (check_health e (m, tr))))"
    using assms by (rule check_health_consistent)
  then show ?thesis
    by (auto simp: monitoring_iteration_def counts_consistent_def
             split: option.splits prod.splits)
qed

lemma apply_operation_consistent:
  assumes "counts_consistent (fst s)"
  shows "counts_consistent (fst (apply_operation e x s))"
proof (cases x)
  case CheckHealth
  then show ?thesis using assms check_health_consistent [of "fst s" e "snd s"] by simp
next
  case ForceReconnect
  then show ?thesis using assms force_reconnect_consistent [of "fst s" e "snd s"] by simp
next
  case ResetStatistics
  then show ?thesis by (simp add: reset_statistics_def counts_consistent_def)
next
  case MonitoringIteration
  then show ?thesis using assms by (simp add: monitoring_iteration_consistent)
qed

lemma run_consistent:
  "counts_consistent (fst s) \<Longrightarrow> counts_consistent (fst (run e ops s))"
  by (induction ops arbitrary: s) (simp_all add: apply_operation_consistent)

lemma monitoring_loop_consistent:
  "counts_consistent (fst s) \<Longrightarrow> monitoring_loop n e s = Some s' \<Longrightarrow>
   counts_consistent (fst s')"
proof (induction n arbitrary: s)
  case 0
  then show ?case by simp
next
  case (Suc n)
  obtain m tr where s: "s = (m, tr)" by (cases s)
  show ?case
  proof (cases "stop_is_set e tr")
    case True
    with Suc.prems s show ?thesis by auto
  next
    case False
    with Suc.prems s
    have "monitoring_loop n e (monitoring_iteration e (m, tr @ [StopIsSet])) = Some s'"
      by simp
    moreover have "counts_consistent (fst (monitoring_iteration e (m, tr @ [StopIsSet])))"
      using Suc.prems(1) s by (simp add: monitoring_iteration_consistent)
    ultimately show ?thesis using Suc.IH by blast
  qed
qed

lemma check_health_split:
  "hc_mysql_handler m = Some h \<Longrightarrow>
   check_health e (m, tr) = check_health_finish e (check_health_begin e (m, tr))"
  by (simp add: check_health_def check_health_begin_def check_health_finish_def Let_def
           split: prod.splits bool.splits)

lemma check_health_begin_ahead:
  "hc_mysql_handler m \<noteq> None \<Longrightarrow> counts_consistent m \<Longrightarrow>
   check_count (fst (check_health_begin e (m, tr))) =
     success_count (fst (check_health_begin e (m, tr))) +
     failure_count (fst (check_health_begin e (m, tr))) + 1"
  by (auto simp: check_health_begin_def counts_consistent_def)

text \<open>
  C9 as stated fails. While a health check waits for its probe, \<open>check_count\<close> is one
  ahead of the two other counters, which is what a reader in another thread sees. And
  when the statistics are reset during that wait, the check ends with \<open>check_count = 0\<close>
  and \<open>success_count = 1\<close>: the counters disagree with no operation under way.
\<close>

theorem counts_in_flight_counterexample:
  "counts_consistent fresh_monitor \<and>
   check_health reachable_server (fresh_monitor, []) =
     check_health_finish reachable_server (check_health_begin reachable_server (fresh_monitor, [])) \<and>
   \<not> counts_consistent (fst (check_health_begin reachable_server (fresh_monitor, []))) \<and>
   check_count (fst (snd (check_health_finish reachable_server
     (reset_statistics (fst (check_health_begin reachable_server (fresh_monitor, []))),
      snd (check_health_begin reachable_server (fresh_monitor, [])))))) = 0 \<and>
   success_count (fst (snd (check_health_finish reachable_server
     (reset_statistics (fst (check_health_begin reachable_server (fresh_monitor, []))),
      snd (check_health_begin reachable_server (fresh_monitor, [])))))) = 1 \<and>
   \<not> counts_consistent (fst (snd (check_health_finish reachable_server
     (reset_statistics (fst (check_health_begin reachable_server (fresh_monitor, []))),
      snd (check_health_begin reachable_server (fresh_monitor, []))))))"
  by code_simp

text \<open>
  C9, amended. \<open>check_count = success_count + failure_count\<close> holds in the new monitor,
  where the three counters are zero, and in every state reached from it when the
  operations run one at a time, each to its end before the next starts: health checks,
  forced reconnections, resets of the statistics and rounds of the monitoring loop, and
  the monitoring loop run to its end. \<open>reset_statistics\<close> sets the three counters to
  zero in any monitor. A health check is the sequence of its two parts, and between them
  \<open>check_count\<close> is one ahead of \<open>success_count + failure_count\<close>.
\<close>

theorem counts_invariant:
  "counts_consistent (new_health_checker dc made) \<and>
   counts_consistent (fst (run e ops (new_health_checker dc made, tr))) \<and>
   (\<forall>n s'. monitoring_loop n e (run e ops (new_health_checker dc made, tr)) = Some s'
       \<longrightarrow> counts_consistent (fst s')) \<and>
   check_count (reset_statistics m) = 0 \<and> success_count (reset_statistics m) = 0 \<and>
   failure_count (reset_statistics m) = 0 \<and> counts_consistent (reset_statistics m) \<and>
   (hc_mysql_handler m \<noteq> None \<longrightarrow>
      check_health e (m, tr) = check_health_finish e (check_health_begin e (m, tr))) \<and>
   (hc_mysql_handler m \<noteq> None \<and> counts_consistent m \<longrightarrow>
      check_count (fst (check_health_begin e (m, tr))) =
        success_count (fst (check_health_begin e (m, tr))) +
        failure_count (fst (check_health_begin e (m, tr))) + 1 \<and>
      counts_consistent (fst (snd (check_health_finish e (check_health_begin e (m, tr))))))"
proof -
  have init: "counts_consistent (new_health_checker dc made)"
    by (simp add: new_health_checker_def counts_consistent_def)
  have a: "counts_consistent (fst (run e ops (new_health_checker dc made, tr)))"
    by (rule run_consistent) (simp add: init)
  have b: "\<forall>n s'. monitoring_loop n e (run e ops (new_health_checker dc made, tr)) = Some s'
       \<longrightarrow> counts_consistent (fst s')"
    using a monitoring_loop_consistent by blast
  have r: "check_count (reset_statistics m) = 0 \<and> success_count (reset_statistics m) = 0 \<and>
      failure_count (reset_statistics m) = 0 \<and> counts_consistent (reset_statistics m)"
    by (simp add: reset_statistics_def counts_consistent_def)
  have split: "check_health e (m, tr) = check_health_finish e (check_health_begin e (m, tr))"
    if "hc_mysql_handler m \<noteq> None"
    using that check_health_split by blast
  have flight: "check_count (fst (check_health_begin e (m, tr))) =
        success_count (fst (check_health_begin e (m, tr))) +
        failure_count (fst (check_health_begin e (m, tr))) + 1 \<and>
      counts_consistent (fst (snd (check_health_finish e (check_health_begin e (m, tr)))))"
    if "hc_mysql_handler m \<noteq> None" and "counts_consistent m"
    using check_health_begin_ahead [OF that] check_health_consistent [OF that(2), of e tr]
      split [OF that(1)]
    by simp
  show ?thesis using init a b r split flight by blast
qed

theorem counts_invariant_witness:
  "check_count (fst (run flaky_server [CheckHealth, CheckHealth, ForceReconnect]
       (fresh_monitor, []))) = 3 \<and>
   counts_consistent (fst (run flaky_server
       [CheckHealth, CheckHealth, ForceReconnect] (fresh_monitor, []))) \<and>
   (\<exists>s'. monitoring_loop 2 flaky_server (run flaky_server
       [CheckHealth, CheckHealth, ForceReconnect] (fresh_monitor, [])) = Some s' \<and>
     check_count (fst s') = 4 \<and> counts_consistent (fst s')) \<and>
   hc_mysql_handler fresh_monitor \<noteq> None \<and> counts_consistent fresh_monitor \<and>
   check_count (fst (check_health_begin flaky_server (fresh_monitor, []))) = 1 \<and>
   success_count (fst (check_health_begin flaky_server (fresh_monitor, []))) +
     failure_count (fst (check_health_begin flaky_server (fresh_monitor, []))) = 0 \<and>
   counts_consistent (fst (snd (check_health flaky_server (fresh_monitor, []))))"
proof -
  let ?s = "run flaky_server [CheckHealth, CheckHealth, ForceReconnect] (fresh_monitor, [])"
  let ?b = "check_health_begin flaky_server (fresh_monitor, [])"
  note all = counts_invariant [of both_sinks "Inr local_config" flaky_server
        "[CheckHealth, CheckHealth, ForceReconnect]" "[]" fresh_monitor]
  have a: "check_count (fst ?s) = 3" by code_simp
  have "monitoring_loop 2 flaky_server ?s \<noteq> None" by code_simp
  then obtain s' where s': "monitoring_loop 2 flaky_server ?s = Some s'" by blast
  have "check_count (fst (the (monitoring_loop 2 flaky_server ?s))) = 4" by code_simp
  then have c: "check_count (fst s') = 4" using s' by simp
  have inv: "counts_consistent (fst ?s) \<and>
      (\<forall>n s'. monitoring_loop n flaky_server ?s = Some s' \<longrightarrow> counts_consistent (fst s'))"
    using all unfolding fresh_monitor_def by blast
  have h: "hc_mysql_handler fresh_monitor \<noteq> None" by code_simp
  have f: "counts_consistent fresh_monitor" by code_simp
  have one: "check_count (fst ?b) = 1" by code_simp
  have ahead: "check_count (fst ?b) = success_count (fst ?b) + failure_count (fst ?b) + 1"
    and ended: "counts_consistent (fst (snd (check_health_finish flaky_server ?b)))"
    and split: "check_health flaky_server (fresh_monitor, []) = check_health_finish flaky_server ?b"
    using all h f by blast+
  have zero: "success_count (fst ?b) + failure_count (fst ?b) = 0"
    using ahead one by simp
  have whole: "counts_consistent (fst (snd (check_health flaky_server (fresh_monitor, []))))"
    using ended split by simp
  show ?thesis using a s' c inv h f one zero whole by blast
qed

lemma check_health_times_counts:
  "hc_mysql_handler (fst s) \<noteq> None \<Longrightarrow> check_health_times n e s = (rs, s') \<Longrightarrow>
   length rs = n \<and>
   hc_mysql_handler (fst s') \<noteq> None \<and>
   check_count (fst s') = check_count (fst s) + int n \<and>
   success_count (fst s') = success_count (fst s) + successes rs \<and>
   failure_count (fst s') = failure_count (fst s) + failures rs"
proof (induction n arbitrary: s rs s')
  case 0
  then show ?case by (simp add: successes_def failures_def)
next
  case (Suc n)
  obtain m tr where s: "s = (m, tr)" by (cases s)
  obtain h where h: "hc_mysql_handler m = Some h" using Suc.prems(1) s by auto
  obtain r s1 where one: "check_health e (m, tr) = (r, s1)" by (cases "check_health e (m, tr)")
  obtain rs1 s2 where rest: "check_health_times n e s1 = (rs1, s2)"
    by (cases "check_health_times n e s1")
  have rs: "rs = r # rs1" and s': "s' = s2"
    using Suc.prems(2) s one rest by simp_all
  have step: "hc_mysql_handler (fst s1) \<noteq> None \<and>
      check_count (fst s1) = check_count m + 1 \<and>
      success_count (fst s1) = success_count m + (if r then 1 else 0) \<and>
      failure_count (fst s1) = failure_count m + (if r then 0 else 1)"
    using one by (auto simp: check_health_some [OF h] Let_def split: if_splits)
  have ih: "length rs1 = n \<and>
      hc_mysql_handler (fst s2) \<noteq> None \<and>
      check_count (fst s2) = check_count (fst s1) + int n \<and>
      success_count (fst s2) = success_count (fst s1) + successes rs1 \<and>
      failure_count (fst s2) = failure_count (fst s1) + failures rs1"
    using Suc.IH [of s1 rs1 s2] step rest by blast
  show ?case
    using step ih by (simp add: rs s' s successes_def failures_def)
qed

lemma check_health_times_reason:
  "hc_mysql_handler (fst s) \<noteq> None \<Longrightarrow> check_health_times n e s = (rs, s') \<Longrightarrow>
   False \<in> set rs \<Longrightarrow>
   last_failure_reason (fst s') = Some ''Health check query failed''"
proof -
  have gen: "hc_mysql_handler (fst s) \<noteq> None \<Longrightarrow> check_health_times n e s = (rs, s') \<Longrightarrow>
     (False \<in> set rs \<or> last_failure_reason (fst s) = Some ''Health check query failed'') \<Longrightarrow>
     last_failure_reason (fst s') = Some ''Health check query failed''"
    for s rs s'
  proof (induction n arbitrary: s rs s')
    case 0
    then show ?case by auto
  next
    case (Suc n)
    obtain m tr where s: "s = (m, tr)" by (cases s)
    obtain h where h: "hc_mysql_handler m = Some h" using Suc.prems(1) s by auto
    obtain r s1 where one: "check_health e (m, tr) = (r, s1)" by (cases "check_health e (m, tr)")
    obtain rs1 s2 where rest: "check_health_times n e s1 = (rs1, s2)"
      by (cases "check_health_times n e s1")
    have rs: "rs = r # rs1" and s': "s' = s2"
      using Suc.prems(2) s one rest by simp_all
    have step: "hc_mysql_handler (fst s1) \<noteq> None \<and>
        (if r then last_failure_reason (fst s1) = last_failure_reason m
         else last_failure_reason (fst s1) = Some ''Health check query failed'')"
      using one by (auto simp: check_health_some [OF h] Let_def split: if_splits)
    have "False \<in> set rs1 \<or> last_failure_reason (fst s1) = Some ''Health check query failed''"
      using Suc.prems(3) step rs s by (cases r) auto
    then show ?case using Suc.IH [of s1 rs1 s2] step rest s' by blast
  qed
  show "hc_mysql_handler (fst s) \<noteq> None \<Longrightarrow> check_health_times n e s = (rs, s') \<Longrightarrow>
   False \<in> set rs \<Longrightarrow>
   last_failure_reason (fst s') = Some ''Health check query failed''"
    using gen by blast
qed

lemma alternating10_counts: "alternating10 rs \<Longrightarrow> successes rs = 5 \<and> failures rs = 5 \<and> False \<in> set rs"
  by (auto simp: alternating10_def successes_def failures_def)

text \<open>
  C4. On a monitor that has a handler, every call of \<open>check_health\<close> returns what the
  probe \<open>health_check\<close> answered and adds 1 to \<open>check_count\<close>. When the probe
  succeeded, it adds 1 to \<open>success_count\<close>, leaves \<open>failure_count\<close> and sets
  \<open>is_healthy\<close>. When the probe failed, it adds 1 to \<open>failure_count\<close>, leaves
  \<open>success_count\<close>, clears \<open>is_healthy\<close> and stores the time and the reason of the
  failure. After \<open>n\<close> calls in a row the counters have grown by \<open>n\<close>, by the number
  of successes and by the number of failures, and if one call failed the reason stored is
  that of a failed check. Ten calls whose outcomes alternate add 5 to \<open>success_count\<close>
  and 5 to \<open>failure_count\<close>.
\<close>

theorem check_health_counts:
  assumes "hc_mysql_handler m = Some h"
  shows
   "fst (check_health e (m, tr)) = fst (health_check e (h, tr @ [DatetimeNow])) \<and>
    check_count (fst (snd (check_health e (m, tr)))) = check_count m + 1 \<and>
    (fst (check_health e (m, tr)) \<longrightarrow>
       success_count (fst (snd (check_health e (m, tr)))) = success_count m + 1 \<and>
       failure_count (fst (snd (check_health e (m, tr)))) = failure_count m \<and>
       is_healthy (fst (snd (check_health e (m, tr))))) \<and>
    (\<not> fst (check_health e (m, tr)) \<longrightarrow>
       failure_count (fst (snd (check_health e (m, tr)))) = failure_count m + 1 \<and>
       success_count (fst (snd (check_health e (m, tr)))) = success_count m \<and>
       \<not> is_healthy (fst (snd (check_health e (m, tr)))) \<and>
       last_failure_time (fst (snd (check_health e (m, tr)))) =
         Some (datetime_now e (snd (snd (health_check e (h, tr @ [DatetimeNow]))))) \<and>
       last_failure_reason (fst (snd (check_health e (m, tr)))) =
         Some ''Health check query failed'') \<and>
    (\<forall>n rs s'. check_health_times n e (m, tr) = (rs, s') \<longrightarrow>
       length rs = n \<and>
       check_count (fst s') = check_count m + int n \<and>
       success_count (fst s') = success_count m + successes rs \<and>
       failure_count (fst s') = failure_count m + failures rs \<and>
       (False \<in> set rs \<longrightarrow>
          last_failure_reason (fst s') = Some ''Health check query failed'')) \<and>
    (\<forall>rs s'. check_health_times 10 e (m, tr) = (rs, s') \<and> alternating10 rs \<longrightarrow>
       check_count (fst s') = check_count m + 10 \<and>
       success_count (fst s') = success_count m + 5 \<and>
       failure_count (fst s') = failure_count m + 5 \<and>
       last_failure_reason (fst s') = Some ''Health check query failed'')"
proof -
  have one: "fst (check_health e (m, tr)) = fst (health_check e (h, tr @ [DatetimeNow])) \<and>
    check_count (fst (snd (check_health e (m, tr)))) = check_count m + 1 \<and>
    (fst (check_health e (m, tr)) \<longrightarrow>
       success_count (fst (snd (check_health e (m, tr)))) = success_count m + 1 \<and>
       failure_count (fst (snd (check_health e (m, tr)))) = failure_count m \<and>
       is_healthy (fst (snd (check_health e (m, tr))))) \<and>
    (\<not> fst (check_health e (m, tr)) \<longrightarrow>
       failure_count (fst (snd (check_health e (m, tr)))) = failure_count m + 1 \<and>
       success_count (fst (snd (check_health e (m, tr)))) = success_count m \<and>
       \<not> is_healthy (fst (snd (check_health e (m, tr)))) \<and>
       last_failure_time (fst (snd (check_health e (m, tr)))) =
         Some (datetime_now e (snd (snd (health_check e (h, tr @ [DatetimeNow]))))) \<and>
       last_failure_reason (fst (snd (check_health e (m, tr)))) =
         Some ''Health check query failed'')"
    by (simp add: check_health_some [OF assms] Let_def)
  have init: "hc_mysql_handler (fst (m, tr)) \<noteq> None" using assms by simp
  have many: "length rs = n \<and>
       check_count (fst s') = check_count m + int n \<and>
       success_count (fst s') = success_count m + successes rs \<and>
       failure_count (fst s') = failure_count m + failures rs \<and>
       (False \<in> set rs \<longrightarrow>
          last_failure_reason (fst s') = Some ''Health check query failed'')"
    if "check_health_times n e (m, tr) = (rs, s')" for n rs s'
    using check_health_times_counts [OF init that] check_health_times_reason [OF init that]
    by simp
  have ten: "check_count (fst s') = check_count m + 10 \<and>
       success_count (fst s') = success_count m + 5 \<and>
       failure_count (fst s') = failure_count m + 5 \<and>
       last_failure_reason (fst s') = Some ''Health check query failed''"
    if "check_health_times 10 e (m, tr) = (rs, s')" and "alternating10 rs" for rs s'
    using many [OF that(1)] alternating10_counts [OF that(2)] by simp
  show ?thesis using one many ten by blast
qed

theorem check_health_counts_witness:
  "hc_mysql_handler fresh_monitor = Some fresh_handler \<and>
   fst (check_health_times 10 flaky_server (fresh_monitor, [])) =
     [True, False, True, False, True, False, True, False, True, False] \<and>
   check_count (fst (snd (check_health_times 10 flaky_server (fresh_monitor, [])))) = 10 \<and>
   success_count (fst (snd (check_health_times 10 flaky_server (fresh_monitor, [])))) = 5 \<and>
   failure_count (fst (snd (check_health_times 10 flaky_server (fresh_monitor, [])))) = 5 \<and>
   last_failure_reason (fst (snd (check_health_times 10 flaky_server (fresh_monitor, [])))) =
     Some ''Health check query failed''"
proof -
  let ?r = "check_health_times 10 flaky_server (fresh_monitor, [])"
  have h: "hc_mysql_handler fresh_monitor = Some fresh_handler" by code_simp
  have rs: "fst ?r = [True, False, True, False, True, False, True, False, True, False]"
    by code_simp
  have alt: "alternating10 (fst ?r)" by (simp add: rs alternating10_def)
  have zero: "check_count fresh_monitor = 0 \<and> success_count fresh_monitor = 0 \<and>
      failure_count fresh_monitor = 0"
    by code_simp
  have eq: "check_health_times 10 flaky_server (fresh_monitor, []) = (fst ?r, snd ?r)"
    by simp
  note all = check_health_counts [OF h, of flaky_server "[]"]
  note ten = all [THEN conjunct2, THEN conjunct2, THEN conjunct2, THEN conjunct2,
                  THEN conjunct2, rule_format, of "fst ?r" "snd ?r"]
  have "check_count (fst (snd ?r)) = check_count fresh_monitor + 10 \<and>
      success_count (fst (snd ?r)) = success_count fresh_monitor + 5 \<and>
      failure_count (fst (snd ?r)) = failure_count fresh_monitor + 5 \<and>
      last_failure_reason (fst (snd ?r)) = Some ''Health check query failed''"
    using ten eq alt by blast
  then show ?thesis using zero h rs by simp
qed

lemma successes_bounds: "0 \<le> successes rs \<and> successes rs \<le> int (length rs)"
  by (simp add: successes_def)

lemma double_threshold: "(1::int) < 2 ^ 1024 - 2 ^ 970"
proof -
  define a :: int where "a = 2 ^ 970"
  have a: "1 \<le> a" unfolding a_def by (rule one_le_power) simp
  have "(2::int) ^ 1024 = 2 ^ (970 + 54)" by simp
  also have "\<dots> = a * 2 ^ 54" unfolding a_def by (rule power_add)
  finally have "(2::int) ^ 1024 - 2 ^ 970 = a * (2 ^ 54 - 1)"
    unfolding a_def by (simp only: right_diff_distrib mult_1_right)
  moreover have "a * 2 \<le> a * (2 ^ 54 - 1)"
    by (rule mult_left_mono) (use a in simp_all)
  ultimately show ?thesis using a by linarith
qed

lemma int_truediv_in_range:
  assumes "c > 0" and "\<bar>s\<bar> \<le> c"
  shows "int_truediv s c = Inr (round_double (Fract s c))"
proof -
  have "\<bar>Fract s c\<bar> = of_int \<bar>s\<bar> / of_int c"
    using assms(1) by (simp add: Fract_of_int_quotient)
  also have "\<dots> \<le> 1" using assms by simp
  finally have "\<bar>Fract s c\<bar> \<le> 1" .
  moreover have "(1::rat) < of_int (2 ^ 1024 - 2 ^ 970)"
    using double_threshold by (simp only: of_int_less_iff [symmetric, where ?'a = rat] of_int_1)
  ultimately have "\<not> double_overflow (Fract s c)"
    unfolding double_overflow_def by linarith
  then show ?thesis using assms(1) by (simp add: int_truediv_def)
qed

lemma get_health_status_rate:
  "success_rate_value (success_count m) (check_count m) = Inr r \<Longrightarrow>
   \<exists>st. get_health_status m = Inr st \<and> success_rate st = r \<and>
        hs_check_count st = check_count m \<and> hs_success_count st = success_count m"
  by (simp add: get_health_status_def)

lemma round_half_even_error:
  assumes "q > 0"
  shows "\<bar>of_int (round_half_even p q) - (of_int p / of_int q :: rat)\<bar> \<le> 1 / 2"
proof -
  define m where "m = p div q"
  define r where "r = p mod q"
  have p: "p = m * q + r" and r0: "0 \<le> r" and rq: "r < q"
    using assms by (simp_all add: m_def r_def)
  have x: "(of_int p / of_int q :: rat) = of_int m + of_int r / of_int q"
    using assms by (simp add: p field_simps)
  have frac: "0 \<le> (of_int r / of_int q :: rat)" "(of_int r / of_int q :: rat) < 1"
    using assms r0 rq by simp_all
  have lo: "(of_int r / of_int q :: rat) \<le> 1 / 2" if "2 * r \<le> q"
  proof -
    have "(of_int (2 * r) :: rat) \<le> of_int q" using that by (simp only: of_int_le_iff)
    then show ?thesis using assms by (simp add: field_simps)
  qed
  have hi: "(of_int r / of_int q :: rat) \<ge> 1 / 2" if "2 * r \<ge> q"
  proof -
    have "(of_int (2 * r) :: rat) \<ge> of_int q" using that by (simp only: of_int_le_iff)
    then show ?thesis using assms by (simp add: field_simps)
  qed
  define f :: rat where "f = of_int r / of_int q"
  have cases: "round_half_even p q = m \<and> 2 * r \<le> q \<or> round_half_even p q = m + 1 \<and> 2 * r \<ge> q"
    unfolding round_half_even_def Let_def m_def [symmetric] r_def [symmetric] by auto
  show ?thesis
    using cases lo hi frac unfolding x f_def [symmetric] by (auto simp: abs_if)
qed

lemma round_half_even_nonneg: "q > 0 \<Longrightarrow> p \<ge> 0 \<Longrightarrow> round_half_even p q \<ge> 0"
  by (auto simp: round_half_even_def Let_def pos_imp_zdiv_nonneg_iff)

lemma floor_log2_le_0: "0 < p \<Longrightarrow> p \<le> q \<Longrightarrow> floor_log2 p q \<le> 0"
proof -
  assume "0 < p" "p \<le> q"
  then have "bitlen p \<le> bitlen q"
    by (simp add: bitlen_def floorlog_mono nat_mono)
  then show ?thesis by (simp add: floor_log2_def Let_def)
qed

lemma floor_log2_lower:
  assumes "p > 0" "q > 0" "floor_log2 p q \<ge> int k"
  shows "q * 2 ^ k \<le> p"
proof -
  define d where "d = bitlen p - bitlen q"
  show ?thesis
  proof (cases "q * 2 ^ nat d \<le> p * 2 ^ nat (- d)")
    case True
    then have fl: "floor_log2 p q = d" by (simp add: floor_log2_def d_def)
    then have d: "d \<ge> int k" using assms(3) by simp
    then have "nat (- d) = 0" "k \<le> nat d" by simp_all
    then have "q * 2 ^ nat d \<le> p" using True by simp
    moreover have "(2::int) ^ k \<le> 2 ^ nat d" using \<open>k \<le> nat d\<close> by (simp add: power_increasing)
    then have "q * 2 ^ k \<le> q * 2 ^ nat d" using assms(2) by (simp add: mult_left_mono)
    ultimately show ?thesis by linarith
  next
    case False
    then have fl: "floor_log2 p q = d - 1" by (simp add: floor_log2_def d_def)
    then have d: "d - 1 \<ge> int k" using assms(3) by simp
    have bp: "2 ^ nat (bitlen p - 1) \<le> p" and bq: "q < 2 ^ nat (bitlen q)"
      using bitlen_bounds [OF assms(1)] bitlen_bounds [OF assms(2)] by simp_all
    have nn: "bitlen q \<ge> 0" by (rule bitlen_nonneg)
    have "nat (bitlen q) + k \<le> nat (bitlen p - 1)" using d nn unfolding d_def by linarith
    then have c: "(2::int) ^ (nat (bitlen q) + k) \<le> 2 ^ nat (bitlen p - 1)"
      by (simp add: power_increasing)
    have a: "q * 2 ^ k \<le> 2 ^ nat (bitlen q) * 2 ^ k"
      using bq by (simp add: mult_right_mono)
    have b: "(2::int) ^ nat (bitlen q) * 2 ^ k = 2 ^ (nat (bitlen q) + k)"
      by (simp add: power_add)
    show ?thesis using a b c bp by linarith
  qed
qed

text \<open>A positive number that rounds with a negative exponent.\<close>

lemma round_double_small:
  assumes x: "x > 0" and pq: "quotient_of x = (p, q)"
    and k: "int k \<le> - max (floor_log2 p q - 52) (- 1074)"
  shows "0 \<le> round_double x \<and> \<bar>round_double x - x\<bar> \<le> 1 / (2 * 2 ^ k)"
proof -
  define e where "e = max (floor_log2 p q - 52) (- 1074)"
  define j where "j = nat (- e)"
  have e: "e \<le> 0" and kj: "k \<le> j" using k unfolding e_def j_def by simp_all
  have q: "q > 0" using pq by (rule quotient_of_denom_pos)
  have xq: "x = of_int p / of_int q" using pq by (rule quotient_of_div)
  have p: "p > 0" using x q unfolding xq by (simp add: zero_less_divide_iff)
  define m where "m = round_half_even (p * 2 ^ j) q"
  have ne: "nat e = 0" using e by simp
  define y where "y = round_double x"
  have rd: "y = of_int m / 2 ^ j"
    unfolding y_def using x pq
    by (simp add: round_double_def Let_def e_def [symmetric] j_def [symmetric] ne
          m_def [symmetric] Fract_of_int_quotient)
  have m0: "m \<ge> 0" unfolding m_def using p q by (intro round_half_even_nonneg) simp_all
  have err: "\<bar>of_int m - (of_int (p * 2 ^ j) / of_int q :: rat)\<bar> \<le> 1 / 2"
    unfolding m_def using q by (rule round_half_even_error)
  have "y - x = (of_int m - of_int (p * 2 ^ j) / of_int q) / 2 ^ j"
    unfolding rd xq by (simp add: field_simps)
  then have "\<bar>y - x\<bar> = \<bar>of_int m - (of_int (p * 2 ^ j) / of_int q :: rat)\<bar> / 2 ^ j"
    by (simp add: abs_divide)
  also have "\<dots> \<le> (1 / 2) / 2 ^ j"
    by (rule divide_right_mono [OF err]) simp
  also have "\<dots> \<le> (1 / 2) / 2 ^ k"
    by (rule divide_left_mono) (use kj in \<open>simp_all add: power_increasing\<close>)
  finally have "\<bar>y - x\<bar> \<le> 1 / (2 * 2 ^ k)" by simp
  moreover have "0 \<le> y" unfolding rd using m0 by simp
  ultimately show ?thesis unfolding y_def by simp
qed

lemma round_double_unit:
  assumes "0 \<le> x" and "x \<le> 1"
  shows "0 \<le> round_double x \<and> \<bar>round_double x - x\<bar> \<le> 1 / 2 ^ 53"
proof (cases "x = 0")
  case True
  then show ?thesis by (simp add: round_double_def)
next
  case False
  then have x: "x > 0" using assms(1) by simp
  obtain p q where pq: "quotient_of x = (p, q)" by (cases "quotient_of x")
  have q: "q > 0" using pq by (rule quotient_of_denom_pos)
  have xq: "x = of_int p / of_int q" using pq by (rule quotient_of_div)
  have p: "p > 0" using x q unfolding xq by (simp add: zero_less_divide_iff)
  have "(of_int p :: rat) \<le> of_int q" using assms(2) q unfolding xq by (simp add: field_simps)
  then have "p \<le> q" by (simp only: of_int_le_iff)
  then have "floor_log2 p q \<le> 0" using p by (rule floor_log2_le_0 [rotated])
  then have "int 52 \<le> - max (floor_log2 p q - 52) (- 1074)" by simp
  from round_double_small [OF x pq this] show ?thesis by simp
qed

lemma round_double_below_128:
  assumes "0 \<le> y" and "y < 128"
  shows "0 \<le> round_double y \<and> \<bar>round_double y - y\<bar> \<le> 1 / 2 ^ 47"
proof (cases "y = 0")
  case True
  then show ?thesis by (simp add: round_double_def)
next
  case False
  then have y: "y > 0" using assms(1) by simp
  obtain p q where pq: "quotient_of y = (p, q)" by (cases "quotient_of y")
  have q: "q > 0" using pq by (rule quotient_of_denom_pos)
  have yq: "y = of_int p / of_int q" using pq by (rule quotient_of_div)
  have p: "p > 0" using y q unfolding yq by (simp add: zero_less_divide_iff)
  have "floor_log2 p q < 7"
  proof (rule ccontr)
    assume "\<not> floor_log2 p q < 7"
    then have "floor_log2 p q \<ge> int 7" by simp
    from floor_log2_lower [OF p q this] have "q * 128 \<le> p" by simp
    then have "(of_int (q * 128) :: rat) \<le> of_int p" by (simp only: of_int_le_iff)
    then have "(128 :: rat) \<le> of_int p / of_int q" using q by (simp add: field_simps)
    then show False using assms(2) unfolding yq by simp
  qed
  then have "int 46 \<le> - max (floor_log2 p q - 52) (- 1074)" by simp
  from round_double_small [OF y pq this] show ?thesis by simp
qed

lemma not_overflow_below_128: "\<bar>y\<bar> < 128 \<Longrightarrow> \<not> double_overflow y"
proof -
  assume y: "\<bar>y\<bar> < 128"
  define a :: int where "a = 2 ^ 970"
  have a: "1 \<le> a" unfolding a_def by (rule one_le_power) simp
  have "(2::int) ^ 1024 = 2 ^ (970 + 54)" by simp
  also have "\<dots> = a * 2 ^ 54" unfolding a_def by (rule power_add)
  finally have eq: "(2::int) ^ 1024 - 2 ^ 970 = a * (2 ^ 54 - 1)"
    unfolding a_def by (simp only: right_diff_distrib mult_1_right)
  have "a * 128 \<le> a * (2 ^ 54 - 1)"
    by (rule mult_left_mono) (use a in simp_all)
  then have "(128 :: int) \<le> 2 ^ 1024 - 2 ^ 970" using a eq by linarith
  then have "(of_int 128 :: rat) \<le> of_int (2 ^ 1024 - 2 ^ 970)" by (simp only: of_int_le_iff)
  then show ?thesis using y unfolding double_overflow_def by simp
qed

lemma success_rate_close:
  assumes "0 \<le> s" and "s \<le> c" and "c > 0"
  shows "\<exists>r. float_mul (round_double (Fract s c)) 100 = PyFloat r \<and> 0 \<le> r \<and>
              \<bar>r - 100 * Fract s c\<bar> \<le> 1 / 2 ^ 45"
proof -
  define x where "x = Fract s c"
  define u :: rat where "u = 1 / 2 ^ 53"
  define v :: rat where "v = 1 / 2 ^ 47"
  have x0: "0 \<le> x" and x1: "x \<le> 1"
    using assms unfolding x_def by (simp_all add: zero_le_Fract_iff Fract_le_one_iff)
  define q1 where "q1 = round_double x"
  have q1: "0 \<le> q1" "\<bar>q1 - x\<bar> \<le> u"
    using round_double_unit [OF x0 x1] unfolding q1_def u_def by simp_all
  define y where "y = q1 * of_int 100"
  have y0: "0 \<le> y" using q1(1) unfolding y_def by simp
  have "q1 \<le> 1 + u" using q1(2) x1 by linarith
  moreover have "(1 + u) * 100 < 128" unfolding u_def by simp
  ultimately have y128: "y < 128" unfolding y_def by simp
  have no: "\<not> double_overflow y" using y0 y128 by (intro not_overflow_below_128) simp
  define r where "r = round_double y"
  have r: "0 \<le> r" "\<bar>r - y\<bar> \<le> v"
    using round_double_below_128 [OF y0 y128] unfolding r_def v_def by simp_all
  have fm: "float_mul q1 100 = PyFloat r"
    using no unfolding float_mul_def y_def [symmetric] r_def by simp
  have diff: "y - 100 * x = 100 * (q1 - x)" unfolding y_def by simp
  have "\<bar>y - 100 * x\<bar> = \<bar>100 * (q1 - x)\<bar>" by (simp only: diff)
  also have "\<dots> = \<bar>100\<bar> * \<bar>q1 - x\<bar>" by (rule abs_mult)
  finally have scaled: "\<bar>y - 100 * x\<bar> = 100 * \<bar>q1 - x\<bar>" by simp
  have "100 * \<bar>q1 - x\<bar> \<le> 100 * u" using q1(2) by simp
  then have second: "\<bar>y - 100 * x\<bar> \<le> 100 * u" by (simp only: scaled)
  have "\<bar>(r - y) + (y - 100 * x)\<bar> \<le> \<bar>r - y\<bar> + \<bar>y - 100 * x\<bar>"
    by (rule abs_triangle_ineq)
  moreover have "(r - y) + (y - 100 * x) = r - 100 * x" by simp
  ultimately have "\<bar>r - 100 * x\<bar> \<le> \<bar>r - y\<bar> + \<bar>y - 100 * x\<bar>" by (simp only:)
  also have "\<dots> \<le> v + 100 * u" using r(2) second by (rule add_mono)
  also have "\<dots> \<le> 1 / 2 ^ 45" unfolding u_def v_def by simp
  finally show ?thesis using fm r(1) unfolding q1_def x_def by blast
qed

text \<open>
  C5. The \<open>success_rate\<close> of the status returned by \<open>get_health_status\<close> is the
  value of \<open>success_count / check_count * 100\<close> when \<open>check_count\<close> is positive, and
  the integer 0 when it is not. The value is the one Python computes: the double nearest
  to the quotient, multiplied by 100 and rounded to the nearest double again; an
  exception of the division leaves \<open>get_health_status\<close>, and there is none when
  \<open>success_count\<close> does not exceed \<open>check_count\<close>. In particular, after any number
  \<open>n\<close> of health checks on a new monitor with a handler, the rate is that value for the
  number of checks that succeeded and \<open>n\<close>, and 0 when \<open>n = 0\<close>. Whenever
  \<open>0 \<le> success_count \<le> check_count\<close> and \<open>check_count\<close> is positive, the rate is a
  finite float, not negative, and within \<open>2 ^ - 45\<close> of the exact number
  \<open>100 * success_count / check_count\<close>.
\<close>

theorem success_rate_formula:
  "(check_count m \<le> 0 \<longrightarrow>
      (\<exists>st. get_health_status m = Inr st \<and> success_rate st = PyInt 0)) \<and>
   (check_count m > 0 \<longrightarrow>
      (case int_truediv (success_count m) (check_count m) of
         Inl err \<Rightarrow> get_health_status m = Inl err
       | Inr q \<Rightarrow> \<exists>st. get_health_status m = Inr st \<and> success_rate st = float_mul q 100)) \<and>
   (check_count m > 0 \<and> \<bar>success_count m\<bar> \<le> check_count m \<longrightarrow>
      (\<exists>st. get_health_status m = Inr st \<and>
         success_rate st =
           float_mul (round_double (Fract (success_count m) (check_count m))) 100)) \<and>
   (\<forall>n rs s'.
      cfg_save_to_db dc \<and>
      check_health_times n e (new_health_checker dc (Inr cfg), tr) = (rs, s') \<longrightarrow>
      (\<exists>st. get_health_status (fst s') = Inr st \<and>
         hs_check_count st = int n \<and>
         hs_success_count st = successes rs \<and>
         success_rate st =
           (if n > 0 then float_mul (round_double (Fract (successes rs) (int n))) 100
            else PyInt 0))) \<and>
   (0 \<le> success_count m \<and> success_count m \<le> check_count m \<and> check_count m > 0 \<longrightarrow>
      (\<exists>st r. get_health_status m = Inr st \<and> success_rate st = PyFloat r \<and> 0 \<le> r \<and>
         \<bar>r - 100 * Fract (success_count m) (check_count m)\<bar> \<le> 1 / 2 ^ 45))"
proof -
  have zero: "\<exists>st. get_health_status m = Inr st \<and> success_rate st = PyInt 0"
    if "check_count m \<le> 0" for m
    using that get_health_status_rate [of m "PyInt 0"] by (auto simp: success_rate_value_def)
  have pos: "case int_truediv (success_count m) (check_count m) of
         Inl err \<Rightarrow> get_health_status m = Inl err
       | Inr q \<Rightarrow> \<exists>st. get_health_status m = Inr st \<and> success_rate st = float_mul q 100"
    if "check_count m > 0"
    using that
    by (cases "int_truediv (success_count m) (check_count m)")
       (simp_all add: get_health_status_def success_rate_value_def)
  have range: "\<exists>st. get_health_status m = Inr st \<and>
         success_rate st =
           float_mul (round_double (Fract (success_count m) (check_count m))) 100 \<and>
         hs_check_count st = check_count m \<and> hs_success_count st = success_count m"
    if "check_count m > 0" and "\<bar>success_count m\<bar> \<le> check_count m" for m
    using that get_health_status_rate [of m]
    by (simp add: success_rate_value_def int_truediv_in_range)
  have hist: "\<exists>st. get_health_status (fst s') = Inr st \<and>
         hs_check_count st = int n \<and>
         hs_success_count st = successes rs \<and>
         success_rate st =
           (if n > 0 then float_mul (round_double (Fract (successes rs) (int n))) 100
            else PyInt 0)"
    if db: "cfg_save_to_db dc"
      and run: "check_health_times n e (new_health_checker dc (Inr cfg), tr) = (rs, s')"
    for n rs s'
  proof -
    have init: "hc_mysql_handler (fst (new_health_checker dc (Inr cfg), tr)) \<noteq> None"
      using db by (simp add: new_health_checker_def initialize_mysql_handler_def)
    have start: "check_count (new_health_checker dc (Inr cfg)) = 0 \<and>
        success_count (new_health_checker dc (Inr cfg)) = 0"
      by (simp add: new_health_checker_def)
    have counts: "check_count (fst s') = int n \<and> success_count (fst s') = successes rs \<and>
        length rs = n"
      using check_health_times_counts [OF init run] start by simp
    show ?thesis
    proof (cases "n > 0")
      case True
      have "\<bar>success_count (fst s')\<bar> \<le> check_count (fst s')"
        using counts successes_bounds [of rs] by simp
      then show ?thesis using range [of "fst s'"] counts True by auto
    next
      case False
      then have "n = 0" by simp
      then have st: "check_count (fst s') = 0" and rs: "successes rs = 0"
        using counts by (simp_all add: successes_def)
      have "success_rate_value (success_count (fst s')) (check_count (fst s')) = Inr (PyInt 0)"
        using st by (simp add: success_rate_value_def)
      from get_health_status_rate [OF this] show ?thesis
        using counts \<open>n = 0\<close> by auto
    qed
  qed
  have close: "\<exists>st r. get_health_status m = Inr st \<and> success_rate st = PyFloat r \<and> 0 \<le> r \<and>
         \<bar>r - 100 * Fract (success_count m) (check_count m)\<bar> \<le> 1 / 2 ^ 45"
    if "0 \<le> success_count m" and "success_count m \<le> check_count m" and "check_count m > 0"
  proof -
    have "\<bar>success_count m\<bar> \<le> check_count m" using that by simp
    from range [OF that(3) this] obtain st where st: "get_health_status m = Inr st"
      "success_rate st =
         float_mul (round_double (Fract (success_count m) (check_count m))) 100"
      by blast
    from success_rate_close [OF that] obtain r where
      "float_mul (round_double (Fract (success_count m) (check_count m))) 100 = PyFloat r"
      "0 \<le> r" "\<bar>r - 100 * Fract (success_count m) (check_count m)\<bar> \<le> 1 / 2 ^ 45"
      by blast
    then show ?thesis using st by auto
  qed
  show ?thesis using zero [of m] pos range [of m] hist close by blast
qed

theorem success_rate_formula_witness:
  "cfg_save_to_db both_sinks \<and>
   check_count fresh_monitor \<le> 0 \<and>
   map_sum id success_rate (get_health_status fresh_monitor) = Inr (PyInt 0) \<and>
   fst (check_health_times 3 flaky_server (fresh_monitor, [])) = [True, False, True] \<and>
   map_sum id success_rate (get_health_status
     (fst (snd (check_health_times 3 flaky_server (fresh_monitor, []))))) =
     Inr (PyFloat (2345624805922133 / 2 ^ 45)) \<and>
   map_sum id success_rate (get_health_status
     (fst (snd (check_health_times 10 flaky_server (fresh_monitor, []))))) =
     Inr (PyFloat 50) \<and>
   success_count (fst (snd (check_health_times 3 flaky_server (fresh_monitor, [])))) = 2 \<and>
   check_count (fst (snd (check_health_times 3 flaky_server (fresh_monitor, [])))) = 3 \<and>
   \<bar>2345624805922133 / 2 ^ 45 - 100 * Fract 2 3\<bar> \<le> (1 / 2 ^ 45 :: rat)"
proof -
  let ?r = "check_health_times 10 flaky_server (fresh_monitor, [])"
  let ?q = "check_health_times 3 flaky_server (fresh_monitor, [])"
  have db: "cfg_save_to_db both_sinks" by code_simp
  have zero: "check_count fresh_monitor \<le> 0" by code_simp
  have rs: "fst ?r = [True, False, True, False, True, False, True, False, True, False]"
    by code_simp
  have qs: "fst ?q = [True, False, True]" by code_simp
  have eq: "check_health_times 10 flaky_server (new_health_checker both_sinks (Inr local_config), [])
      = (fst ?r, snd ?r)"
    by (simp add: fresh_monitor_def)
  have eq3: "check_health_times 3 flaky_server (new_health_checker both_sinks (Inr local_config), [])
      = (fst ?q, snd ?q)"
    by (simp add: fresh_monitor_def)
  have v3: "float_mul (round_double (Fract 2 3)) 100 = PyFloat (2345624805922133 / 2 ^ 45)"
    by code_simp
  have v10: "float_mul (round_double (Fract 5 10)) 100 = PyFloat 50"
    by code_simp
  note all = success_rate_formula [of fresh_monitor both_sinks flaky_server local_config "[]"]
  note hist = all [THEN conjunct2, THEN conjunct2, THEN conjunct2, THEN conjunct1, rule_format]
  have a: "map_sum id success_rate (get_health_status fresh_monitor) = Inr (PyInt 0)"
    using all [THEN conjunct1] zero by auto
  have b: "map_sum id success_rate (get_health_status (fst (snd ?r))) = Inr (PyFloat 50)"
    using hist [of 10 "fst ?r" "snd ?r"] db eq v10 by (auto simp: rs successes_def)
  have c: "map_sum id success_rate (get_health_status (fst (snd ?q))) =
      Inr (PyFloat (2345624805922133 / 2 ^ 45))"
    using hist [of 3 "fst ?q" "snd ?q"] db eq3 v3 by (auto simp: qs successes_def)
  have s3: "success_count (fst (snd ?q)) = 2" and c3: "check_count (fst (snd ?q)) = 3"
    by code_simp+
  note three = success_rate_formula
    [of "fst (snd ?q)" both_sinks flaky_server local_config "[]"]
  note near = three [THEN conjunct2, THEN conjunct2, THEN conjunct2, THEN conjunct2]
  have "\<exists>st r. get_health_status (fst (snd ?q)) = Inr st \<and> success_rate st = PyFloat r \<and>
      0 \<le> r \<and> \<bar>r - 100 * Fract 2 3\<bar> \<le> 1 / 2 ^ 45"
    using near by (simp add: s3 c3)
  then obtain st r where st: "get_health_status (fst (snd ?q)) = Inr st"
    and r: "success_rate st = PyFloat r" "\<bar>r - 100 * Fract 2 3\<bar> \<le> 1 / 2 ^ 45"
    by blast
  have req: "r = 2345624805922133 / 2 ^ 45" using c st r(1) by simp
  have d: "\<bar>2345624805922133 / 2 ^ 45 - 100 * Fract 2 3\<bar> \<le> (1 / 2 ^ 45 :: rat)"
    using r(2) unfolding req .
  show ?thesis using db zero a b c qs s3 c3 d by simp
qed

section \<open>Liveness probes\<close>

lemma probes_append [simp]: "probes (a @ b) = probes a + probes b"
  by (simp add: probes_def)

lemma probes_Nil [simp]: "probes [] = 0"
  by (simp add: probes_def)

lemma probes_Cons [simp]: "probes (c # tr) = (if c = ConnPing then 1 else 0) + probes tr"
  by (simp add: probes_def)

lemma connect_probes: "probes (snd (snd (connect e (h, tr)))) = probes tr"
  by (simp add: connect_def split: option.splits)

lemma check_connection_state_probes:
  "probes (snd (snd (check_connection_state e (h, tr)))) = probes tr"
  by (simp add: check_connection_state_def connect_probes)

lemma ensure_connection_probes:
  "probes (snd (snd (ensure_connection e (h, tr)))) =
     probes tr + (if time_time e tr - last_ping_time h > ping_interval h \<and> is_open h then 1 else 0)"
  by (simp add: ensure_connection_def Let_def connect_probes check_connection_state_probes
           split: option.splits prod.splits)

lemma ensure_connection_closed:
  "\<not> is_open h \<Longrightarrow> ensure_connection e (h, tr) = connect e (h, tr @ [TimeTime])"
  by (simp add: ensure_connection_def Let_def check_connection_state_def)

lemma connect_ping_interval:
  "ping_interval (fst (snd (connect e (h, tr)))) = ping_interval h"
  by (simp add: connect_def split: option.splits)

text \<open>After a call that issued a probe, what the handle looks like.\<close>

lemma ensure_connection_after_probe:
  assumes el: "time_time e tr - last_ping_time h > ping_interval h" and op: "is_open h"
    and closed: "\<forall>msg. conn_ping e (tr @ [TimeTime]) \<noteq> Some (msg, True)"
    and mono: "time_time e tr \<le> time_time e (tr @ [TimeTime, ConnPing, PymysqlConnect])"
  shows "\<not> is_open (fst (snd (ensure_connection e (h, tr)))) \<or>
         time_time e tr \<le> last_ping_time (fst (snd (ensure_connection e (h, tr))))"
proof (cases "conn_ping e (tr @ [TimeTime])")
  case None
  then show ?thesis using el op
    by (simp add: ensure_connection_def Let_def check_connection_state_def is_open_def)
next
  case (Some p)
  obtain msg opn where p: "p = (msg, opn)" by (cases p)
  have "\<not> opn" using closed Some p by auto
  then show ?thesis using el op Some p mono
    by (auto simp: ensure_connection_def Let_def connect_def is_open_def split: option.splits)
qed

lemma ensure_connection_ping_interval:
  "ping_interval (fst (snd (ensure_connection e (h, tr)))) = ping_interval h"
  by (simp add: ensure_connection_def Let_def check_connection_state_def connect_ping_interval
           split: option.splits prod.splits)

text \<open>
  C6 as stated fails: on a handle whose connection has been lost, a call made after the
  ping interval has elapsed since the last verified-alive time issues no probe at all; it
  reconnects instead.
\<close>

theorem ensure_connection_probe_counterexample:
  "time_time reachable_server [] - last_ping_time dropped_handler
     > ping_interval dropped_handler \<and>
   probes (snd (snd (ensure_connection reachable_server (dropped_handler, [])))) = 0 \<and>
   probes (snd (snd (ensure_connection reachable_server (dropped_handler, []))))
     \<noteq> probes [] + 1 \<and>
   snd (snd (ensure_connection reachable_server (dropped_handler, []))) =
     [TimeTime, PymysqlConnect, TimeTime]"
  by code_simp

text \<open>
  With a ping that raises and leaves the connection object open, two calls one second
  apart issue two probes: \<open>connect\<close> returns at once and the time of the last ping is
  not renewed.
\<close>

lemma ensure_connection_two_probes:
  "time_time out_of_sync_server
     (snd (snd (ensure_connection out_of_sync_server (stale_handler, [])))) -
   time_time out_of_sync_server [] \<le> ping_interval stale_handler \<and>
   probes (snd (snd (ensure_connection out_of_sync_server
     (snd (ensure_connection out_of_sync_server (stale_handler, [])))))) = 2"
  by code_simp

text \<open>
  C6, amended. A call of \<open>_ensure_connection\<close> issues exactly one probe when the ping
  interval has elapsed since the last verified-alive time and the handle holds an open
  connection, and no probe otherwise; on a handle that is not open it goes to
  \<open>connect\<close> directly. Two calls in a row, the second within the ping interval of the
  first, issue at most one probe, provided that a probe that fails leaves the connection
  closed and that the clock read when reconnecting is not behind the one read at the
  start of the call.
\<close>

theorem ensure_connection_probes_amended:
  "probes (snd (snd (ensure_connection e (h, tr)))) =
     probes tr +
     (if time_time e tr - last_ping_time h > ping_interval h \<and> is_open h then 1 else 0) \<and>
   (\<not> is_open h \<longrightarrow> ensure_connection e (h, tr) = connect e (h, tr @ [TimeTime])) \<and>
   ((\<forall>msg. conn_ping e (tr @ [TimeTime]) \<noteq> Some (msg, True)) \<and>
    time_time e tr \<le> time_time e (tr @ [TimeTime, ConnPing, PymysqlConnect]) \<and>
    time_time e (snd (snd (ensure_connection e (h, tr)))) - time_time e tr \<le> ping_interval h
    \<longrightarrow> probes (snd (snd (ensure_connection e (snd (ensure_connection e (h, tr))))))
          \<le> probes tr + 1)"
proof -
  let ?s1 = "snd (ensure_connection e (h, tr))"
  have two: "probes (snd (snd (ensure_connection e ?s1))) \<le> probes tr + 1"
    if closed: "\<forall>msg. conn_ping e (tr @ [TimeTime]) \<noteq> Some (msg, True)"
      and mono: "time_time e tr \<le> time_time e (tr @ [TimeTime, ConnPing, PymysqlConnect])"
      and within: "time_time e (snd ?s1) - time_time e tr \<le> ping_interval h"
  proof (cases "time_time e tr - last_ping_time h > ping_interval h \<and> is_open h")
    case True
    have after: "\<not> is_open (fst ?s1) \<or> time_time e tr \<le> last_ping_time (fst ?s1)"
      using ensure_connection_after_probe True closed mono by blast
    have "\<not> (time_time e (snd ?s1) - last_ping_time (fst ?s1) > ping_interval (fst ?s1) \<and>
             is_open (fst ?s1))"
      using after within by (auto simp: ensure_connection_ping_interval)
    then have "probes (snd (snd (ensure_connection e (fst ?s1, snd ?s1)))) = probes (snd ?s1)"
      by (simp only: ensure_connection_probes if_False add_0_right)
    then show ?thesis using True by (simp add: ensure_connection_probes)
  next
    case False
    then have "probes (snd ?s1) = probes tr" by (simp add: ensure_connection_probes)
    moreover have "probes (snd (snd (ensure_connection e (fst ?s1, snd ?s1)))) \<le> probes (snd ?s1) + 1"
      by (simp only: ensure_connection_probes split: if_splits) simp
    ultimately show ?thesis by simp
  qed
  show ?thesis
    using two by (simp add: ensure_connection_probes ensure_connection_closed)
qed

theorem ensure_connection_probes_amended_witness:
  "is_open stale_handler \<and>
   time_time reachable_server [] - last_ping_time stale_handler > ping_interval stale_handler \<and>
   conn_ping reachable_server [TimeTime] = None \<and>
   time_time reachable_server []
     \<le> time_time reachable_server [TimeTime, ConnPing, PymysqlConnect] \<and>
   time_time reachable_server (snd (snd (ensure_connection reachable_server (stale_handler, []))))
     - time_time reachable_server [] \<le> ping_interval stale_handler \<and>
   probes (snd (snd (ensure_connection reachable_server (stale_handler, [])))) = 1 \<and>
   probes (snd (snd (ensure_connection reachable_server
     (snd (ensure_connection reachable_server (stale_handler, [])))))) \<le> 1 \<and>
   \<not> is_open fresh_handler \<and>
   ensure_connection reachable_server (fresh_handler, []) =
     connect reachable_server (fresh_handler, [TimeTime])"
proof -
  have op: "is_open stale_handler" by code_simp
  have el: "time_time reachable_server [] - last_ping_time stale_handler
      > ping_interval stale_handler"
    by code_simp
  have ping: "conn_ping reachable_server [TimeTime] = None" by code_simp
  have closed: "\<forall>msg. conn_ping reachable_server ([] @ [TimeTime]) \<noteq> Some (msg, True)"
    using ping by simp
  have mono: "time_time reachable_server []
      \<le> time_time reachable_server ([] @ [TimeTime, ConnPing, PymysqlConnect])"
    by code_simp
  have within: "time_time reachable_server
        (snd (snd (ensure_connection reachable_server (stale_handler, []))))
      - time_time reachable_server [] \<le> ping_interval stale_handler"
    by code_simp
  have nop: "\<not> is_open fresh_handler" by code_simp
  note a = ensure_connection_probes_amended [of reachable_server stale_handler "[]"]
  note b = ensure_connection_probes_amended [of reachable_server fresh_handler "[]"]
  have one: "probes (snd (snd (ensure_connection reachable_server (stale_handler, [])))) = 1"
    using a [THEN conjunct1] op el by simp
  have two: "probes (snd (snd (ensure_connection reachable_server
      (snd (ensure_connection reachable_server (stale_handler, [])))))) \<le> 1"
    using a [THEN conjunct2, THEN conjunct2] closed mono within by simp
  have direct: "ensure_connection reachable_server (fresh_handler, []) =
      connect reachable_server (fresh_handler, [TimeTime])"
    using b [THEN conjunct2, THEN conjunct1] nop by simp
  show ?thesis using op el ping mono within one two nop direct by simp
qed

section \<open>Batches and forced reconnection\<close>

lemma statement_calls_simps [simp]:
  "statement_calls [] = []"
  "statement_calls (a @ b) = statement_calls a @ statement_calls b"
  "statement_calls (c # tr) =
     (if c = CursorExecute \<or> c = CursorExecutemany \<or> c = ConnCommit \<or> c = ConnRollback
      then [c] else []) @ statement_calls tr"
  by (simp_all add: statement_calls_def)

lemma close_calls_simps [simp]:
  "close_calls [] = []"
  "close_calls (a @ b) = close_calls a @ close_calls b"
  "close_calls (c # tr) = (if c = ConnClose then [c] else []) @ close_calls tr"
  by (simp_all add: close_calls_def)

lemma network_calls_simps [simp]:
  "network_calls [] = []"
  "network_calls (a @ b) = network_calls a @ network_calls b"
  "network_calls (c # tr) = (if is_network c then [c] else []) @ network_calls tr"
  by (simp_all add: network_calls_def)

lemma connect_statement_calls:
  "statement_calls (snd (snd (connect e (h, tr)))) = statement_calls tr"
  by (simp add: connect_def split: option.splits)

lemma connect_close_calls:
  "close_calls (snd (snd (connect e (h, tr)))) = close_calls tr"
  by (simp add: connect_def split: option.splits)

lemma ensure_connection_statement_calls:
  "statement_calls (snd (snd (ensure_connection e (h, tr)))) = statement_calls tr"
  by (simp add: ensure_connection_def Let_def check_connection_state_def
        connect_statement_calls split: option.splits prod.splits)

lemma ensure_connection_close_calls:
  "close_calls (snd (snd (ensure_connection e (h, tr)))) = close_calls tr"
  by (simp add: ensure_connection_def Let_def check_connection_state_def
        connect_close_calls split: option.splits prod.splits)

lemma execute_query_close_calls:
  "close_calls (snd (snd (execute_query e (h, tr)))) = close_calls tr"
proof -
  obtain r h1 tr1 where ens: "ensure_connection e (h, tr) = (r, h1, tr1)"
    by (cases "ensure_connection e (h, tr)") auto
  have "close_calls tr1 = close_calls tr"
    using ensure_connection_close_calls [of e h tr] ens by simp
  then show ?thesis
    by (cases r) (auto simp: execute_query_def ens split: option.splits sum.splits)
qed

lemma health_check_close_calls:
  "close_calls (snd (snd (health_check e (h, tr)))) = close_calls tr"
proof -
  obtain r s1 where q: "execute_query e (h, tr) = (r, s1)" by (cases "execute_query e (h, tr)")
  have "close_calls (snd s1) = close_calls tr"
    using execute_query_close_calls [of e h tr] q by simp
  then show ?thesis by (cases r) (simp_all add: health_check_def q)
qed

lemma check_health_close_calls:
  "close_calls (snd (snd (check_health e (m, tr)))) = close_calls tr"
proof (cases "hc_mysql_handler m")
  case None
  then show ?thesis by (simp add: check_health_none)
next
  case (Some h)
  show ?thesis
    using health_check_close_calls [of e h "tr @ [DatetimeNow]"]
    by (simp add: check_health_some [OF Some] Let_def)
qed

lemma execute_batch_insert_Nil:
  "execute_batch_insert e [] (h, tr) = ensure_connection e (h, tr)"
  by (cases "ensure_connection e (h, tr)") (simp add: execute_batch_insert_def split: bool.splits)

lemma ensure_connection_fresh_open:
  "is_open h \<Longrightarrow> time_time e tr - last_ping_time h \<le> ping_interval h \<Longrightarrow>
   ensure_connection e (h, tr) = (True, h, tr @ [TimeTime])"
  by (simp add: ensure_connection_def Let_def check_connection_state_def)

text \<open>
  C2 as stated fails: on a handle that is not connected, to a server that refuses the
  connection, an empty batch returns \<open>False\<close> after one attempt to connect.
\<close>

theorem execute_batch_insert_empty_counterexample:
  "\<not> fst (execute_batch_insert unreachable_server [] (fresh_handler, [])) \<and>
   network_calls (snd (snd (execute_batch_insert unreachable_server [] (fresh_handler, [])))) =
     [PymysqlConnect]"
  by code_simp

text \<open>
  C2, amended. With an empty parameter list \<open>execute_batch_insert\<close> does what
  \<open>_ensure_connection\<close> does and returns what it returns: it executes no statement,
  commit or rollback. On a handle that holds an open connection whose ping interval has
  not elapsed it returns \<open>True\<close>, makes no network call and leaves the handle as it was.
  On a handle that is not open it returns \<open>False\<close> when the connection cannot be made.
\<close>

theorem execute_batch_insert_empty:
  "execute_batch_insert e [] (h, tr) = ensure_connection e (h, tr) \<and>
   statement_calls (snd (snd (execute_batch_insert e [] (h, tr)))) = statement_calls tr \<and>
   (is_open h \<and> time_time e tr - last_ping_time h \<le> ping_interval h \<longrightarrow>
      fst (execute_batch_insert e [] (h, tr)) \<and>
      fst (snd (execute_batch_insert e [] (h, tr))) = h \<and>
      network_calls (snd (snd (execute_batch_insert e [] (h, tr)))) = network_calls tr) \<and>
   (\<not> is_open h \<and> pymysql_connect e (tr @ [TimeTime]) \<noteq> None \<longrightarrow>
      \<not> fst (execute_batch_insert e [] (h, tr)))"
proof -
  have live: "fst (ensure_connection e (h, tr)) \<and>
      fst (snd (ensure_connection e (h, tr))) = h \<and>
      network_calls (snd (snd (ensure_connection e (h, tr)))) = network_calls tr"
    if "is_open h" and "time_time e tr - last_ping_time h \<le> ping_interval h"
    using ensure_connection_fresh_open [OF that] by simp
  have dead: "\<not> fst (ensure_connection e (h, tr))"
    if "\<not> is_open h" and "pymysql_connect e (tr @ [TimeTime]) \<noteq> None"
    using that by (auto simp: ensure_connection_closed connect_def)
  show ?thesis
    using live dead
    by (simp add: execute_batch_insert_Nil ensure_connection_statement_calls)
qed

theorem execute_batch_insert_empty_witness:
  "is_open connected_handler \<and>
   time_time reachable_server [] - last_ping_time connected_handler
     \<le> ping_interval connected_handler \<and>
   fst (execute_batch_insert reachable_server [] (connected_handler, [])) \<and>
   network_calls (snd (snd (execute_batch_insert reachable_server [] (connected_handler, [])))) = [] \<and>
   \<not> is_open fresh_handler \<and> pymysql_connect unreachable_server [TimeTime] \<noteq> None \<and>
   \<not> fst (execute_batch_insert unreachable_server [] (fresh_handler, []))"
proof -
  have op: "is_open connected_handler" by code_simp
  have within: "time_time reachable_server [] - last_ping_time connected_handler
      \<le> ping_interval connected_handler"
    by code_simp
  have nop: "\<not> is_open fresh_handler" by code_simp
  have refused: "pymysql_connect unreachable_server ([] @ [TimeTime]) \<noteq> None" by code_simp
  note a = execute_batch_insert_empty [of reachable_server connected_handler "[]"]
  note b = execute_batch_insert_empty [of unreachable_server fresh_handler "[]"]
  have live: "fst (execute_batch_insert reachable_server [] (connected_handler, [])) \<and>
      network_calls (snd (snd (execute_batch_insert reachable_server [] (connected_handler, []))))
        = []"
    using a [THEN conjunct2, THEN conjunct2, THEN conjunct1] op within by simp
  have dead: "\<not> fst (execute_batch_insert unreachable_server [] (fresh_handler, []))"
    using b [THEN conjunct2, THEN conjunct2, THEN conjunct2] nop refused by simp
  show ?thesis using op within nop refused live dead by simp
qed

lemma disconnect_no_connection: "connection h = None \<Longrightarrow> disconnect e (h, tr) = (h, tr)"
  by (simp add: disconnect_def)

text \<open>
  C3 as stated fails: when the server refuses the connection, \<open>force_reconnect\<close> runs
  no health check and \<open>check_count\<close> stays as it was.
\<close>

theorem force_reconnect_counterexample:
  "hc_mysql_handler fresh_monitor = Some fresh_handler \<and> connection fresh_handler = None \<and>
   \<not> fst (force_reconnect unreachable_server (fresh_monitor, [])) \<and>
   check_count (fst (snd (force_reconnect unreachable_server (fresh_monitor, [])))) =
     check_count fresh_monitor"
  by code_simp

text \<open>
  C3, amended. On a monitor whose handler has no connection, \<open>force_reconnect\<close> closes
  nothing (its \<open>disconnect\<close> is a no-op) and makes one attempt to connect. When the
  attempt succeeds it runs one health check on the connected handler and returns
  \<open>True\<close>, and \<open>check_count\<close> has grown by exactly 1. When the attempt fails it returns
  \<open>False\<close>, runs no health check, and leaves the monitor as it was.
\<close>

theorem force_reconnect_no_prior_connection:
  assumes "hc_mysql_handler m = Some h" and "connection h = None"
  shows
   "disconnect e (h, tr) = (h, tr) \<and>
    close_calls (snd (snd (force_reconnect e (m, tr)))) = close_calls tr \<and>
    (pymysql_connect e tr = None \<longrightarrow>
       force_reconnect e (m, tr) =
         (True,
          snd (check_health e
            (m\<lparr>hc_mysql_handler :=
                 Some (h\<lparr>connection := Some (Connection True),
                         last_ping_time := time_time e (tr @ [PymysqlConnect])\<rparr>)\<rparr>,
             tr @ [PymysqlConnect, TimeTime]))) \<and>
       check_count (fst (snd (force_reconnect e (m, tr)))) = check_count m + 1) \<and>
    (pymysql_connect e tr \<noteq> None \<longrightarrow>
       force_reconnect e (m, tr) = (False, m, tr @ [PymysqlConnect]))"
proof -
  have closed: "\<not> is_open h" using assms(2) by (simp add: is_open_def)
  have same: "h\<lparr>connection := None\<rparr> = h" using assms(2) by simp
  have keep: "m\<lparr>hc_mysql_handler := Some h\<rparr> = m" using assms(1) by simp
  have ok: "force_reconnect e (m, tr) =
         (True,
          snd (check_health e
            (m\<lparr>hc_mysql_handler :=
                 Some (h\<lparr>connection := Some (Connection True),
                         last_ping_time := time_time e (tr @ [PymysqlConnect])\<rparr>)\<rparr>,
             tr @ [PymysqlConnect, TimeTime])))"
    if "pymysql_connect e tr = None"
    using that assms closed
    by (simp add: force_reconnect_def disconnect_no_connection connect_def)
  have count: "check_count (fst (snd (force_reconnect e (m, tr)))) = check_count m + 1"
    if "pymysql_connect e tr = None"
    by (simp add: ok [OF that] check_health_some [of _ "h\<lparr>connection := Some (Connection True),
          last_ping_time := time_time e (tr @ [PymysqlConnect])\<rparr>"] Let_def)
  have bad: "force_reconnect e (m, tr) = (False, m, tr @ [PymysqlConnect])"
    if "pymysql_connect e tr \<noteq> None"
    using that assms closed same keep
    by (auto simp: force_reconnect_def disconnect_no_connection connect_def)
  have cl: "close_calls (snd (snd (force_reconnect e (m, tr)))) = close_calls tr"
  proof (cases "pymysql_connect e tr")
    case None
    show ?thesis
      by (simp add: ok [OF None] check_health_close_calls)
  next
    case (Some msg)
    then show ?thesis using bad by simp
  qed
  show ?thesis
    using ok count bad cl by (simp add: disconnect_no_connection [OF assms(2)])
qed

theorem force_reconnect_no_prior_connection_witness:
  "hc_mysql_handler fresh_monitor = Some fresh_handler \<and> connection fresh_handler = None \<and>
   pymysql_connect reachable_server [] = None \<and>
   fst (force_reconnect reachable_server (fresh_monitor, [])) \<and>
   check_count (fst (snd (force_reconnect reachable_server (fresh_monitor, [])))) = 1 \<and>
   pymysql_connect unreachable_server [] \<noteq> None \<and>
   force_reconnect unreachable_server (fresh_monitor, []) = (False, fresh_monitor, [PymysqlConnect])"
proof -
  have h: "hc_mysql_handler fresh_monitor = Some fresh_handler" by code_simp
  have c: "connection fresh_handler = None" by code_simp
  have ok: "pymysql_connect reachable_server [] = None" by code_simp
  have no: "pymysql_connect unreachable_server [] \<noteq> None" by code_simp
  have zero: "check_count fresh_monitor = 0" by code_simp
  note a = force_reconnect_no_prior_connection [OF h c, of reachable_server "[]"]
  note b = force_reconnect_no_prior_connection [OF h c, of unreachable_server "[]"]
  have good: "fst (force_reconnect reachable_server (fresh_monitor, [])) \<and>
      check_count (fst (snd (force_reconnect reachable_server (fresh_monitor, [])))) = 1"
  proof -
    note both = a [THEN conjunct2, THEN conjunct2, THEN conjunct1, rule_format, OF ok]
    have "fst (force_reconnect reachable_server (fresh_monitor, []))"
      by (subst both [THEN conjunct1]) simp
    moreover have "check_count (fst (snd (force_reconnect reachable_server (fresh_monitor, [])))) = 1"
      using both [THEN conjunct2] zero by simp
    ultimately show ?thesis by simp
  qed
  have bad: "force_reconnect unreachable_server (fresh_monitor, []) =
      (False, fresh_monitor, [PymysqlConnect])"
    using b [THEN conjunct2, THEN conjunct2, THEN conjunct2] no by simp
  show ?thesis using h c ok no good bad by simp
qed

section \<open>The data handler\<close>

text \<open>
  C1 as stated fails: with both sinks enabled and both taking the record, \<open>save_trade\<close>
  returns \<open>None\<close>, not \<open>True\<close>.
\<close>

theorem save_trade_counterexample:
  "cfg_save_to_csv both_sinks \<and> cfg_save_to_db both_sinks \<and>
   csv_accepted reachable_server [] \<and>
   fst (save_to_database reachable_server one_trade (fresh_data_handler, [PathExists, ToCsv])) =
     PyBool True \<and>
   fst (save_trade reachable_server both_sinks one_trade (fresh_data_handler, [])) = PyNone \<and>
   fst (save_trade reachable_server both_sinks one_trade (fresh_data_handler, [])) \<noteq> PyBool True"
  by code_simp

text \<open>
  C1, amended. For every record and every configuration \<open>save_trade\<close> returns \<open>None\<close>:
  it has no success indicator. It writes to the CSV file when that sink is enabled and
  then, whatever came of that, saves to the database when that sink is enabled; the
  boolean that \<open>_save_to_database\<close> returns is dropped.
\<close>

theorem save_trade_returns_none:
  "fst (save_trade e dc r (d, tr)) = PyNone \<and>
   fst (save_trade e dc r (d, tr)) \<noteq> PyBool b \<and>
   snd (save_trade e dc r (d, tr)) =
     (if cfg_save_to_db dc
      then snd (save_to_database e r
                 (d, if cfg_save_to_csv dc then tr @ [PathExists, ToCsv] else tr))
      else (d, if cfg_save_to_csv dc then tr @ [PathExists, ToCsv] else tr))"
  by (simp add: save_trade_def save_to_csv_def Let_def)

theorem save_trade_returns_none_witness:
  "fst (save_trade unreachable_server both_sinks one_trade (fresh_data_handler, [])) = PyNone \<and>
   fst (save_trade reachable_server csv_only one_trade (file_only_data_handler, [])) = PyNone \<and>
   snd (save_trade reachable_server csv_only one_trade (file_only_data_handler, [])) =
     (file_only_data_handler, [PathExists, ToCsv])"
proof -
  have csv: "cfg_save_to_csv csv_only" and db: "\<not> cfg_save_to_db csv_only" by code_simp+
  note a = save_trade_returns_none
    [of unreachable_server both_sinks one_trade fresh_data_handler "[]" True]
  note b = save_trade_returns_none
    [of reachable_server csv_only one_trade file_only_data_handler "[]" True]
  show ?thesis
    using a [THEN conjunct1] b [THEN conjunct1] b [THEN conjunct2, THEN conjunct2] csv db
    by simp
qed

text \<open>
  C8. When the data loaded is an empty frame, \<open>get_statistics\<close> returns the dictionary
  \<open>{'total_trades': 0}\<close>. In every case it returns a dictionary: no exception leaves
  it.
\<close>

theorem get_statistics_empty:
  "(df_empty (fst (load_historical_data e dc s)) \<longrightarrow>
      fst (get_statistics e dc s) = Inr [(''total_trades'', PyInt 0)]) \<and>
   (\<exists>stats. fst (get_statistics e dc s) = Inr stats)"
proof -
  obtain df s1 where l: "load_historical_data e dc s = (df, s1)"
    by (cases "load_historical_data e dc s")
  have a: "fst (get_statistics e dc s) = Inr [(''total_trades'', PyInt 0)]" if "df_empty df"
    using that by (simp add: get_statistics_def get_statistics_try_def l)
  have b: "\<exists>stats. fst (get_statistics e dc s) = Inr stats"
    by (cases "pandas_stats e df")
       (simp_all add: get_statistics_def get_statistics_try_def l)
  show ?thesis using a b l by simp
qed

theorem get_statistics_empty_witness:
  "df_empty (fst (load_historical_data reachable_server csv_only (file_only_data_handler, []))) \<and>
   fst (get_statistics reachable_server csv_only (file_only_data_handler, [])) =
     Inr [(''total_trades'', PyInt 0)] \<and>
   df_empty (fst (load_historical_data unreachable_server both_sinks (fresh_data_handler, []))) \<and>
   fst (get_statistics unreachable_server both_sinks (fresh_data_handler, [])) =
     Inr [(''total_trades'', PyInt 0)]"
proof -
  have a: "df_empty (fst (load_historical_data reachable_server csv_only
      (file_only_data_handler, [])))"
    by code_simp
  have b: "df_empty (fst (load_historical_data unreachable_server both_sinks
      (fresh_data_handler, [])))"
    by code_simp
  show ?thesis
    using a b
      get_statistics_empty [of reachable_server csv_only "(file_only_data_handler, [])"]
      get_statistics_empty [of unreachable_server both_sinks "(fresh_data_handler, [])"]
    by blast
qed

end
